theory Spec2Isabelle
  imports Main "HOL-Library.Word"
begin

section \<open>Shared vocabulary\<close>

text \<open>
  The status codes of the transport (\<^verbatim>\<open>grpc::StatusCode\<close>). The two source files
  only ever construct six of them, but a client can receive any of them from the
  transport, so the whole enumeration is kept.
\<close>

datatype StatusCode =
    OK
  | CANCELLED
  | UNKNOWN
  | INVALID_ARGUMENT
  | DEADLINE_EXCEEDED
  | NOT_FOUND
  | ALREADY_EXISTS
  | PERMISSION_DENIED
  | RESOURCE_EXHAUSTED
  | FAILED_PRECONDITION
  | ABORTED
  | OUT_OF_RANGE
  | UNIMPLEMENTED
  | INTERNAL
  | UNAVAILABLE
  | DATA_LOSS
  | UNAUTHENTICATED

type_synonym byte = "8 word"

text \<open>
  A file system is a finite map from a path to a regular file, with the attributes the
  source files read or write: the bytes, the modification time and the access time.
  Reading a file is taken to leave its access time alone.
\<close>

record regular_file =
  content :: "byte list"
  mtime :: int
  atime :: int

type_synonym filesystem = "string \<rightharpoonup> regular_file"

text \<open>\<^verbatim>\<open>WrapPath\<close>: the mount path is prepended to the file name (both nodes).\<close>

definition WrapPath :: "string \<Rightarrow> string \<Rightarrow> string" where
  "WrapPath mount_path filepath = mount_path @ filepath"

subsection \<open>Streams over files\<close>

text \<open>
  \<^verbatim>\<open>std::ifstream\<close>: the bytes not yet read and the end-of-file bit. A read of
  \<open>n\<close> bytes that finds at least \<open>n\<close> bytes left takes them and leaves the bit alone;
  a read that runs into the end takes what is left and sets the bit. The second component
  of the result is what \<^verbatim>\<open>gcount()\<close> bytes of the buffer hold.
\<close>

record ifstream =
  unread :: "byte list"
  eofbit :: bool

definition ifstream_open :: "byte list \<Rightarrow> ifstream" where
  "ifstream_open bs = \<lparr>unread = bs, eofbit = False\<rparr>"

definition ifstream_read :: "nat \<Rightarrow> ifstream \<Rightarrow> byte list \<times> ifstream" where
  "ifstream_read n f =
     (if n \<le> length (unread f)
      then (take n (unread f), f\<lparr>unread := drop n (unread f)\<rparr>)
      else (unread f, f\<lparr>unread := [], eofbit := True\<rparr>))"

text \<open>\<^verbatim>\<open>char buffer[256]\<close>: the chunk size of both transfer loops.\<close>

definition buffer_size :: nat where
  "buffer_size = 256"

text \<open>
  \<^verbatim>\<open>std::ofstream(path, std::ios::binary)\<close> creates the file, with both times set to
  the time of the call, or truncates it, which sets its modification time;
  \<^verbatim>\<open>write\<close> appends and sets the modification time. The time of the call is a
  parameter. Opening for writing is taken to succeed; a write to a stream that is not open
  does nothing.
\<close>

definition ofstream_open :: "int \<Rightarrow> string \<Rightarrow> filesystem \<Rightarrow> filesystem" where
  "ofstream_open now path fs =
     (case fs path of
        None \<Rightarrow> fs(path \<mapsto> \<lparr>content = [], mtime = now, atime = now\<rparr>)
      | Some f \<Rightarrow> fs(path \<mapsto> f\<lparr>content := [], mtime := now\<rparr>))"

definition ofstream_write :: "int \<Rightarrow> string \<Rightarrow> byte list \<Rightarrow> filesystem \<Rightarrow> filesystem" where
  "ofstream_write now path bs fs =
     (case fs path of
        None \<Rightarrow> fs
      | Some f \<Rightarrow> fs(path \<mapsto> f\<lparr>content := content f @ bs, mtime := now\<rparr>))"

text \<open>
  \<^verbatim>\<open>struct utimbuf\<close> and \<^verbatim>\<open>utime\<close>: the call sets the access time of an existing
  file to \<^verbatim>\<open>actime\<close> and its modification time to \<^verbatim>\<open>modtime\<close>, and fails on a
  missing file.
\<close>

record utimbuf =
  actime :: int
  modtime :: int

definition utime :: "string \<Rightarrow> utimbuf \<Rightarrow> filesystem \<Rightarrow> filesystem" where
  "utime path buf fs =
     (case fs path of
        None \<Rightarrow> fs
      | Some f \<Rightarrow> fs(path \<mapsto> f\<lparr>atime := actime buf, mtime := modtime buf\<rparr>))"

section \<open>The server node\<close>

subsection \<open>State\<close>

text \<open>
  \<^verbatim>\<open>write_locks\<close> is a \<^verbatim>\<open>std::unordered_map<std::string, std::string>\<close> from a
  file name to the id of the client holding its lock.
\<close>

type_synonym lock_map = "string \<rightharpoonup> string"

record server =
  mount_path :: string
  write_locks :: lock_map
  files :: filesystem
  clock :: int

text \<open>
  \<^verbatim>\<open>write_locks[filename]\<close>: \<^verbatim>\<open>operator[]\<close> inserts the empty string under a key that is
  absent and returns the value under the key.
\<close>

definition subscript :: "lock_map \<Rightarrow> string \<Rightarrow> string \<times> lock_map" where
  "subscript m k =
     (case m k of
        None \<Rightarrow> ('''', m(k \<mapsto> ''''))
      | Some v \<Rightarrow> (v, m))"

text \<open>\<^verbatim>\<open>write_locks.erase(filename)\<close>.\<close>

definition erase :: "string \<Rightarrow> lock_map \<Rightarrow> lock_map" where
  "erase k m = m(k := None)"

definition release :: "string \<Rightarrow> server \<Rightarrow> server" where
  "release filename s = s\<lparr>write_locks := erase filename (write_locks s)\<rparr>"

subsection \<open>DFSRequestLock\<close>

record LockRequest =
  lr_filename :: string
  lr_cid :: string

record LockResponse =
  locked :: bool

definition LockResponse_default :: LockResponse where
  "LockResponse_default = \<lparr>locked = False\<rparr>"

text \<open>
  The first argument is what \<^verbatim>\<open>context->IsCancelled()\<close> answers at the top of the
  handler.
\<close>

definition DFSRequestLock ::
  "bool \<Rightarrow> LockRequest \<Rightarrow> server \<Rightarrow> StatusCode \<times> LockResponse \<times> server" where
  "DFSRequestLock is_cancelled request s =
     (let filename = lr_filename request; cid = lr_cid request in
      if is_cancelled then (DEADLINE_EXCEEDED, LockResponse_default, s)
      else
        (let (owner, wl) = subscript (write_locks s) filename in
         if owner = '''' \<or> owner = cid
         then (OK, \<lparr>locked = True\<rparr>, s\<lparr>write_locks := wl(filename \<mapsto> cid)\<rparr>)
         else (RESOURCE_EXHAUSTED, \<lparr>locked = False\<rparr>, s\<lparr>write_locks := wl\<rparr>)))"

subsection \<open>DFSStoreFile\<close>

record StoreRequest =
  sr_filename :: string
  sr_filechunk :: "byte list"

text \<open>
  The incoming stream is the list of the messages \<^verbatim>\<open>reader->Read\<close> delivers, each paired
  with what \<^verbatim>\<open>context->IsCancelled()\<close> answers in the iteration that handles it; after
  the last one \<^verbatim>\<open>Read\<close> returns false and the loop ends. The loop carries the locals
  \<^verbatim>\<open>new_file\<close> and \<^verbatim>\<open>filename\<close>; \<^verbatim>\<open>stored_file\<close> is the file under
  \<^verbatim>\<open>WrapPath(filename)\<close> once it has been opened.
\<close>

fun store_loop ::
  "(StoreRequest \<times> bool) list \<Rightarrow> bool \<Rightarrow> string \<Rightarrow> server \<Rightarrow> StatusCode \<times> server" where
  "store_loop [] new_file filename s = (OK, release filename s)"
| "store_loop ((request, is_cancelled) # rest) new_file filename s =
     (if is_cancelled then (DEADLINE_EXCEEDED, release filename s)
      else
        (let filename' = (if new_file then sr_filename request else filename);
             path = WrapPath (mount_path s) filename';
             opened = (if new_file then ofstream_open (clock s) path (files s) else files s);
             written = ofstream_write (clock s) path (sr_filechunk request) opened
         in store_loop rest False filename' (s\<lparr>files := written\<rparr>)))"

definition DFSStoreFile :: "(StoreRequest \<times> bool) list \<Rightarrow> server \<Rightarrow> StatusCode \<times> server" where
  "DFSStoreFile reader s = store_loop reader True [] s"

subsection \<open>DFSDeleteFile\<close>

text \<open>
  \<^verbatim>\<open>std::remove\<close> succeeds on a file that exists and that the operating system lets the
  server remove (the first argument); otherwise it fails and changes nothing.
\<close>

definition std_remove :: "bool \<Rightarrow> string \<Rightarrow> filesystem \<Rightarrow> filesystem option" where
  "std_remove permitted path fs =
     (case fs path of
        None \<Rightarrow> None
      | Some f \<Rightarrow> if permitted then Some (fs(path := None)) else None)"

text \<open>
  The handler's effects in the order the code performs them. The \<^verbatim>\<open>lock_guard\<close> on
  \<^verbatim>\<open>write_locks_mutex\<close> is taken right after the file name is read and dropped when
  the handler returns.
\<close>

datatype effect =
    Lock_write_locks_mutex
  | Unlock_write_locks_mutex
  | Remove string
  | Erase string

definition DFSDeleteFile ::
  "bool \<Rightarrow> bool \<Rightarrow> string \<Rightarrow> server \<Rightarrow> StatusCode \<times> server \<times> effect list" where
  "DFSDeleteFile is_cancelled permitted filename s =
     (if is_cancelled
      then (DEADLINE_EXCEEDED, release filename s,
            [Lock_write_locks_mutex, Erase filename, Unlock_write_locks_mutex])
      else
        (case std_remove permitted (WrapPath (mount_path s) filename) (files s) of
           Some fs' \<Rightarrow>
             (OK, release filename (s\<lparr>files := fs'\<rparr>),
              [Lock_write_locks_mutex, Remove (WrapPath (mount_path s) filename),
               Erase filename, Unlock_write_locks_mutex])
         | None \<Rightarrow>
             (CANCELLED, release filename s,
              [Lock_write_locks_mutex, Remove (WrapPath (mount_path s) filename),
               Erase filename, Unlock_write_locks_mutex])))"

subsection \<open>DFSGetFile\<close>

text \<open>
  The loop of the handler: \<open>is_cancelled i\<close> is what \<^verbatim>\<open>context->IsCancelled()\<close> answers in
  iteration \<open>i\<close>, and \<open>written\<close> collects the chunks given to \<^verbatim>\<open>writer->Write\<close>.
\<close>

function get_loop ::
  "(nat \<Rightarrow> bool) \<Rightarrow> nat \<Rightarrow> ifstream \<Rightarrow> byte list list \<Rightarrow> StatusCode \<times> byte list list" where
  "get_loop is_cancelled i filestream written =
     (if eofbit filestream then (OK, written)
      else if is_cancelled i then (DEADLINE_EXCEEDED, written)
      else
        (case ifstream_read buffer_size filestream of
           (chunk, filestream') \<Rightarrow>
             get_loop is_cancelled (Suc i) filestream' (written @ [chunk])))"
  by pat_completeness auto
termination
  by (relation "measure (\<lambda>(c, i, f, w). if eofbit f then 0 else Suc (length (unread f)))")
     (auto simp: ifstream_read_def buffer_size_def split: if_splits)

declare get_loop.simps [simp del]

definition DFSGetFile ::
  "(nat \<Rightarrow> bool) \<Rightarrow> string \<Rightarrow> server \<Rightarrow> StatusCode \<times> byte list list" where
  "DFSGetFile is_cancelled filename s =
     (case files s (WrapPath (mount_path s) filename) of
        None \<Rightarrow> (NOT_FOUND, [])
      | Some f \<Rightarrow> get_loop is_cancelled 0 (ifstream_open (content f)) [])"

subsection \<open>DFSList and ProcessCallback\<close>

datatype d_type =
    DT_UNKNOWN
  | DT_FIFO
  | DT_CHR
  | DT_DIR
  | DT_BLK
  | DT_REG
  | DT_LNK
  | DT_SOCK

record dirent =
  d_name :: string
  d_type :: d_type

text \<open>
  What the operating system answers about the mount directory: \<^verbatim>\<open>opendir\<close> gives the
  entries \<^verbatim>\<open>readdir\<close> will deliver, in order, or a null pointer (\<open>None\<close>);
  \<^verbatim>\<open>stat\<close> gives the modification time of a path or fails (\<open>None\<close>).
\<close>

record directory_view =
  opendir :: "dirent list option"
  stat_mtime :: "string \<rightharpoonup> int"

record fileinfo =
  fi_filename :: string
  fi_mtime :: int

text \<open>
  A handler either returns or its behaviour is undefined: \<^verbatim>\<open>readdir\<close> and
  \<^verbatim>\<open>closedir\<close> are called on the pointer \<^verbatim>\<open>opendir\<close> returned, whatever it is, and
  both require a valid directory stream.
\<close>

datatype 'a outcome = Returns 'a | Undefined_behaviour

fun list_loop ::
  "string \<Rightarrow> (string \<rightharpoonup> int) \<Rightarrow> dirent list \<Rightarrow> fileinfo list \<Rightarrow> StatusCode \<times> fileinfo list" where
  "list_loop mp st [] response = (OK, response)"
| "list_loop mp st (entry # rest) response =
     (if d_type entry = DT_REG
      then
        (case st (WrapPath mp (d_name entry)) of
           Some t \<Rightarrow>
             list_loop mp st rest (response @ [\<lparr>fi_filename = d_name entry, fi_mtime = t\<rparr>])
         | None \<Rightarrow>
             (CANCELLED, response @ [\<lparr>fi_filename = d_name entry, fi_mtime = 0\<rparr>]))
      else list_loop mp st rest response)"

definition DFSList ::
  "bool \<Rightarrow> string \<Rightarrow> directory_view \<Rightarrow> (StatusCode \<times> fileinfo list) outcome" where
  "DFSList is_cancelled mp os =
     (if is_cancelled then Returns (DEADLINE_EXCEEDED, [])
      else
        (case opendir os of
           None \<Rightarrow> Undefined_behaviour
         | Some entries \<Rightarrow> Returns (list_loop mp (stat_mtime os) entries [])))"

fun callback_loop ::
  "string \<Rightarrow> (string \<rightharpoonup> int) \<Rightarrow> dirent list \<Rightarrow> fileinfo list \<Rightarrow> fileinfo list" where
  "callback_loop mp st [] response = response"
| "callback_loop mp st (entry # rest) response =
     (if d_type entry = DT_REG
      then
        (case st (WrapPath mp (d_name entry)) of
           Some t \<Rightarrow>
             callback_loop mp st rest (response @ [\<lparr>fi_filename = d_name entry, fi_mtime = t\<rparr>])
         | None \<Rightarrow>
             callback_loop mp st rest (response @ [\<lparr>fi_filename = d_name entry, fi_mtime = 0\<rparr>]))
      else callback_loop mp st rest response)"

definition ProcessCallback :: "string \<Rightarrow> directory_view \<Rightarrow> fileinfo list outcome" where
  "ProcessCallback mp os =
     (case opendir os of
        None \<Rightarrow> Undefined_behaviour
      | Some entries \<Rightarrow> Returns (callback_loop mp (stat_mtime os) entries []))"

section \<open>The client node\<close>

subsection \<open>State and environment\<close>

record client =
  c_mount_path :: string
  client_id :: string
  local_files :: filesystem
  c_clock :: int

record StatusResponse =
  sp_filename :: string
  sp_size :: int
  sp_mtime :: int
  sp_ctime :: int
  sp_crc :: int

record FileStatus =
  fs_filename :: string
  fs_size :: int
  fs_mtime :: int
  fs_ctime :: int
  fs_server_crc :: int

text \<open>
  What the calls through \<^verbatim>\<open>service_stub\<close> come back with: the transport's status of
  each call and, with it, the reply or the chunks the reader delivered.
  \<open>file_status_declared\<close> is the value of the local \<^verbatim>\<open>FileStatus file_status;\<close> of
  \<^verbatim>\<open>Store\<close> and \<^verbatim>\<open>Fetch\<close> before \<^verbatim>\<open>Stat\<close> is called: the declaration of the
  structure is in a header that is not part of the sources, so what the declaration
  leaves in the fields is a parameter. \<open>utimbuf_declared\<close> is the value of the local
  \<^verbatim>\<open>struct utimbuf recent;\<close> of the two operations, which is declared without an
  initialiser: what its fields hold before \<^verbatim>\<open>recent.modtime\<close> is assigned is a
  parameter as well.
\<close>

record environment =
  status_reply :: "StatusCode \<times> StatusResponse"
  lock_reply :: StatusCode
  store_reply :: StatusCode
  get_reply :: "byte list list \<times> StatusCode"
  delete_reply :: StatusCode
  list_reply :: "StatusCode \<times> fileinfo list"
  file_status_declared :: FileStatus
  utimbuf_declared :: utimbuf

text \<open>The calls a client operation makes, in order.\<close>

datatype rpc =
    Call_DFSStatus string
  | Call_DFSRequestLock string string
  | Call_DFSStoreFile "StoreRequest list"
  | Call_DFSGetFile string
  | Call_DFSDeleteFile string
  | Call_DFSList

text \<open>\<^verbatim>\<open>static_cast<uint32_t>\<close> of an integer.\<close>

definition static_cast_uint32 :: "int \<Rightarrow> 32 word" where
  "static_cast_uint32 i = word_of_int i"

subsection \<open>RequestWriteAccess\<close>

definition RequestWriteAccess :: "environment \<Rightarrow> string \<Rightarrow> StatusCode" where
  "RequestWriteAccess env filename =
     (let status = lock_reply env in
      if status = OK then OK
      else if status = DEADLINE_EXCEEDED then DEADLINE_EXCEEDED
      else if status = RESOURCE_EXHAUSTED then RESOURCE_EXHAUSTED
      else CANCELLED)"

subsection \<open>Stat\<close>

definition Stat :: "environment \<Rightarrow> string \<Rightarrow> FileStatus \<Rightarrow> StatusCode \<times> FileStatus" where
  "Stat env filename file_status =
     (case status_reply env of
        (status, response) \<Rightarrow>
          if status = OK
          then (OK, \<lparr>fs_filename = sp_filename response, fs_size = sp_size response,
                     fs_mtime = sp_mtime response, fs_ctime = sp_ctime response,
                     fs_server_crc = sp_crc response\<rparr>)
          else if status = DEADLINE_EXCEEDED then (DEADLINE_EXCEEDED, file_status)
          else if status = NOT_FOUND then (NOT_FOUND, file_status)
          else (CANCELLED, file_status))"

subsection \<open>Store\<close>

text \<open>
  The sending loop of \<^verbatim>\<open>Store\<close>: one request per read, each with the file name set
  once before the loop; \<open>sent\<close> collects what is given to \<^verbatim>\<open>writer->Write\<close>.
\<close>

function send_loop :: "string \<Rightarrow> ifstream \<Rightarrow> StoreRequest list \<Rightarrow> StoreRequest list" where
  "send_loop filename filestream sent =
     (if eofbit filestream then sent
      else
        (case ifstream_read buffer_size filestream of
           (chunk, filestream') \<Rightarrow>
             send_loop filename filestream'
               (sent @ [\<lparr>sr_filename = filename, sr_filechunk = chunk\<rparr>])))"
  by pat_completeness auto
termination
  by (relation "measure (\<lambda>(n, f, w). if eofbit f then 0 else Suc (length (unread f)))")
     (auto simp: ifstream_read_def buffer_size_def split: if_splits)

declare send_loop.simps [simp del]

text \<open>
  \<open>dfs_file_checksum\<close> is the CRC-32 of the shared library, which is not part of the
  sources: a parameter, from the bytes of the file (\<open>None\<close> when there is no file under
  the path) to the checksum.
\<close>

definition Store ::
  "(byte list option \<Rightarrow> 32 word) \<Rightarrow> environment \<Rightarrow> string \<Rightarrow> client
     \<Rightarrow> StatusCode \<times> client \<times> rpc list" where
  "Store dfs_file_checksum env filename c =
     (case Stat env filename (file_status_declared env) of
        (status, file_status) \<Rightarrow>
          (let path = WrapPath (c_mount_path c) filename in
           if status = OK \<or> status = NOT_FOUND
           then
             (let client_crc = dfs_file_checksum (map_option content (local_files c path)) in
              if client_crc \<noteq> static_cast_uint32 (fs_server_crc file_status)
              then
                (let lock_status = RequestWriteAccess env filename in
                 if lock_status = OK
                 then
                   (case local_files c path of
                      None \<Rightarrow>
                        (NOT_FOUND, c,
                         [Call_DFSStatus filename, Call_DFSRequestLock filename (client_id c)])
                    | Some f \<Rightarrow>
                        (let sent = send_loop filename (ifstream_open (content f)) [];
                             writer_status = store_reply env
                         in
                           (if writer_status = OK then OK
                            else if writer_status = DEADLINE_EXCEEDED then DEADLINE_EXCEEDED
                            else CANCELLED,
                            c,
                            [Call_DFSStatus filename,
                             Call_DFSRequestLock filename (client_id c),
                             Call_DFSStoreFile sent])))
                 else
                   (lock_status, c,
                    [Call_DFSStatus filename, Call_DFSRequestLock filename (client_id c)]))
              else
                (ALREADY_EXISTS,
                 (let recent = (utimbuf_declared env)\<lparr>modtime := fs_mtime file_status\<rparr>
                  in c\<lparr>local_files := utime path recent (local_files c)\<rparr>),
                 [Call_DFSStatus filename]))
           else (status, c, [Call_DFSStatus filename])))"

subsection \<open>Fetch\<close>

definition Fetch ::
  "(byte list option \<Rightarrow> 32 word) \<Rightarrow> environment \<Rightarrow> string \<Rightarrow> client
     \<Rightarrow> StatusCode \<times> client \<times> rpc list" where
  "Fetch dfs_file_checksum env filename c =
     (case Stat env filename (file_status_declared env) of
        (status, file_status) \<Rightarrow>
          (let path = WrapPath (c_mount_path c) filename in
           if status = OK
           then
             (let client_crc = dfs_file_checksum (map_option content (local_files c path)) in
              if client_crc \<noteq> static_cast_uint32 (fs_server_crc file_status)
              then
                (case get_reply env of
                   (chunks, finish) \<Rightarrow>
                     (let opened = ofstream_open (c_clock c) path (local_files c);
                          downloaded = fold (ofstream_write (c_clock c) path) chunks opened
                      in
                        (if finish = OK then OK
                         else if finish = DEADLINE_EXCEEDED then DEADLINE_EXCEEDED
                         else if finish = NOT_FOUND then NOT_FOUND
                         else CANCELLED,
                         c\<lparr>local_files := downloaded\<rparr>,
                         [Call_DFSStatus filename, Call_DFSGetFile filename])))
              else
                (ALREADY_EXISTS,
                 (let recent = (utimbuf_declared env)\<lparr>modtime := fs_mtime file_status\<rparr>
                  in c\<lparr>local_files := utime path recent (local_files c)\<rparr>),
                 [Call_DFSStatus filename]))
           else if status = DEADLINE_EXCEEDED then (DEADLINE_EXCEEDED, c, [Call_DFSStatus filename])
           else if status = NOT_FOUND then (NOT_FOUND, c, [Call_DFSStatus filename])
           else (CANCELLED, c, [Call_DFSStatus filename])))"

subsection \<open>Delete\<close>

definition Delete :: "environment \<Rightarrow> string \<Rightarrow> client \<Rightarrow> StatusCode \<times> rpc list" where
  "Delete env filename c =
     (let lock_status = RequestWriteAccess env filename in
      if lock_status = OK
      then
        (let status = delete_reply env in
           (if status = OK then OK
            else if status = DEADLINE_EXCEEDED then DEADLINE_EXCEEDED
            else if status = NOT_FOUND then NOT_FOUND
            else CANCELLED,
            [Call_DFSRequestLock filename (client_id c), Call_DFSDeleteFile filename]))
      else (lock_status, [Call_DFSRequestLock filename (client_id c)]))"

subsection \<open>List\<close>

text \<open>
  \<^verbatim>\<open>file_map->insert\<close> keeps the value of a key that is already in the map.
\<close>

definition map_insert :: "fileinfo \<Rightarrow> (string \<rightharpoonup> int) \<Rightarrow> (string \<rightharpoonup> int)" where
  "map_insert info m =
     (case m (fi_filename info) of
        None \<Rightarrow> m(fi_filename info \<mapsto> fi_mtime info)
      | Some v \<Rightarrow> m)"

definition List_files ::
  "environment \<Rightarrow> (string \<rightharpoonup> int) \<Rightarrow> StatusCode \<times> (string \<rightharpoonup> int)" where
  "List_files env file_map =
     (case list_reply env of
        (status, infos) \<Rightarrow>
          if status = OK then (OK, fold map_insert infos file_map)
          else if status = DEADLINE_EXCEEDED then (DEADLINE_EXCEEDED, file_map)
          else (CANCELLED, file_map))"

section \<open>Vocabulary of the properties\<close>

subsection \<open>Sequences of registry operations\<close>

text \<open>
  The registry is operated on by \<^verbatim>\<open>DFSRequestLock\<close> (with the answer of
  \<^verbatim>\<open>IsCancelled\<close> and the request) and by the release every mutating handler performs,
  \<^verbatim>\<open>write_locks.erase(filename)\<close>.
\<close>

datatype lock_op =
    RequestLock bool LockRequest
  | Release string

fun apply_lock_op :: "lock_op \<Rightarrow> server \<Rightarrow> server" where
  "apply_lock_op (RequestLock is_cancelled request) s =
     snd (snd (DFSRequestLock is_cancelled request s))"
| "apply_lock_op (Release filename) s = release filename s"

definition run_lock_ops :: "lock_op list \<Rightarrow> server \<Rightarrow> server" where
  "run_lock_ops ops s = fold apply_lock_op ops s"

text \<open>The owners of a file name: the client ids recorded for it, the empty id meaning free.\<close>

definition owners :: "server \<Rightarrow> string \<Rightarrow> string set" where
  "owners s filename =
     (case write_locks s filename of
        None \<Rightarrow> {}
      | Some cid \<Rightarrow> if cid = [] then {} else {cid})"

text \<open>
  The condition of the grant as the specification words it: the current owner is absent,
  or the empty string, or the requesting client.
\<close>

definition free_or_owned_by :: "server \<Rightarrow> string \<Rightarrow> string \<Rightarrow> bool" where
  "free_or_owned_by s filename cid =
     (case write_locks s filename of
        None \<Rightarrow> True
      | Some owner \<Rightarrow> owner = [] \<or> owner = cid)"

subsection \<open>The comparison of the checksums\<close>

text \<open>
  The test \<^verbatim>\<open>client_crc != static_cast<uint32_t>(file_status.server_crc)\<close> of
  \<^verbatim>\<open>Store\<close> and \<^verbatim>\<open>Fetch\<close>: the checksum of the local file against the field of the
  status as \<^verbatim>\<open>Stat\<close> leaves it.
\<close>

definition crcs_differ ::
  "(byte list option \<Rightarrow> 32 word) \<Rightarrow> environment \<Rightarrow> string \<Rightarrow> client \<Rightarrow> bool" where
  "crcs_differ dfs_file_checksum env filename c =
     (dfs_file_checksum
        (map_option content (local_files c (WrapPath (c_mount_path c) filename)))
      \<noteq> static_cast_uint32
           (fs_server_crc (snd (Stat env filename (file_status_declared env)))))"

subsection \<open>A checksum to run the client on\<close>

text \<open>
  Modelled from the spec: \<^verbatim>\<open>dfs_file_checksum\<close> and the CRC table are in the shared
  library, which is not part of the sources. The specification defines the checksum as
  CRC-32 with the reflected polynomial 0xEDB88320, the initial value 0xFFFFFFFF and the
  final xor 0xFFFFFFFF over the bytes of the file. The client operations take the checksum
  as a parameter; this definition only serves to run them on concrete files. What the
  library answers for a file that cannot be opened is not specified: \<open>checksum_of\<close>
  takes 0 there.
\<close>

definition crc32_step :: "32 word \<Rightarrow> 32 word" where
  "crc32_step c = (if bit c 0 then xor (drop_bit 1 c) 0xEDB88320 else drop_bit 1 c)"

definition crc32_byte :: "byte \<Rightarrow> 32 word \<Rightarrow> 32 word" where
  "crc32_byte b c = (crc32_step ^^ 8) (xor c (ucast b))"

definition crc32 :: "byte list \<Rightarrow> 32 word" where
  "crc32 bs = not (fold crc32_byte bs 0xFFFFFFFF)"

definition checksum_of :: "byte list option \<Rightarrow> 32 word" where
  "checksum_of b = (case b of None \<Rightarrow> 0 | Some bs \<Rightarrow> crc32 bs)"

subsection \<open>Concrete data\<close>

text \<open>
  A server and a client to run the operations on: the server holds the file \<open>a\<close> with the
  one byte 0x61 and the modification time 1000, the client \<open>A\<close> holds the same bytes with
  the modification time 500 and the access time 400.
\<close>

definition example_server :: server where
  "example_server =
     \<lparr>mount_path = ''/srv/'', write_locks = Map.empty,
      files = [''/srv/a'' \<mapsto> \<lparr>content = [0x61], mtime = 1000, atime = 1000\<rparr>],
      clock = 3000\<rparr>"

definition example_client :: client where
  "example_client =
     \<lparr>c_mount_path = ''/cli/'', client_id = ''A'',
      local_files = [''/cli/a'' \<mapsto> \<lparr>content = [0x61], mtime = 500, atime = 400\<rparr>],
      c_clock = 2000\<rparr>"

definition example_response :: StatusResponse where
  "example_response =
     \<lparr>sp_filename = ''a'', sp_size = 1, sp_mtime = 1000, sp_ctime = 900, sp_crc = 0xE8B7BE43\<rparr>"

definition zero_file_status :: FileStatus where
  "zero_file_status =
     \<lparr>fs_filename = [], fs_size = 0, fs_mtime = 0, fs_ctime = 0, fs_server_crc = 0\<rparr>"

definition zero_utimbuf :: utimbuf where
  "zero_utimbuf = \<lparr>actime = 0, modtime = 0\<rparr>"

text \<open>
  Every call answered with OK; the reader of a fetch delivers no chunk; the two locals
  declared without a value hold zeros.
\<close>

definition example_env :: environment where
  "example_env =
     \<lparr>status_reply = (OK, example_response), lock_reply = OK, store_reply = OK,
      get_reply = ([], OK), delete_reply = OK, list_reply = (OK, []),
      file_status_declared = zero_file_status, utimbuf_declared = zero_utimbuf\<rparr>"

section \<open>Properties\<close>

subsection \<open>Helper facts\<close>

lemma crc32_Nil: "crc32 [] = 0"
  by (simp add: crc32_def)

lemma crc32_a: "crc32 [0x61] = 0xE8B7BE43"
  by code_simp

lemma Stat_status:
  "fst (Stat env filename file_status) =
     (if fst (status_reply env) = OK then OK
      else if fst (status_reply env) = DEADLINE_EXCEEDED then DEADLINE_EXCEEDED
      else if fst (status_reply env) = NOT_FOUND then NOT_FOUND
      else CANCELLED)"
  by (simp add: Stat_def split: prod.split)

lemma Stat_OK:
  "status_reply env = (OK, response) \<Longrightarrow>
     Stat env filename file_status =
       (OK, \<lparr>fs_filename = sp_filename response, fs_size = sp_size response,
              fs_mtime = sp_mtime response, fs_ctime = sp_ctime response,
              fs_server_crc = sp_crc response\<rparr>)"
  by (simp add: Stat_def)

lemma Stat_not_OK:
  "fst (status_reply env) \<noteq> OK \<Longrightarrow> snd (Stat env filename file_status) = file_status"
  by (auto simp: Stat_def split: prod.split)

subsection \<open>C5: the translation of received status codes\<close>

text \<open>
  C5, as stated: every client operation maps each of OK, DEADLINE_EXCEEDED, NOT_FOUND,
  ALREADY_EXISTS and RESOURCE_EXHAUSTED to itself. It fails: \<open>List\<close> answers CANCELLED to
  a received NOT_FOUND, \<open>RequestWriteAccess\<close> answers CANCELLED to a received
  ALREADY_EXISTS, and the finish of a \<open>Store\<close> stream answers CANCELLED to a received
  RESOURCE_EXHAUSTED.
\<close>

theorem C5_translation_counterexample:
  "fst (List_files (example_env\<lparr>list_reply := (NOT_FOUND, [])\<rparr>) Map.empty) = CANCELLED
   \<and> RequestWriteAccess (example_env\<lparr>lock_reply := ALREADY_EXISTS\<rparr>) ''a'' = CANCELLED
   \<and> fst (Store checksum_of
         (example_env\<lparr>status_reply := (NOT_FOUND, example_response),
                       store_reply := RESOURCE_EXHAUSTED\<rparr>) ''a'' example_client)
       = CANCELLED"
  by (simp add: List_files_def RequestWriteAccess_def Store_def Stat_def example_env_def
      example_client_def zero_file_status_def WrapPath_def checksum_of_def crc32_a
      static_cast_uint32_def)

text \<open>
  C5, amended: every operation has its own set of codes that it hands on unchanged, and it
  answers CANCELLED to every other code it receives. The sets are: \<open>RequestWriteAccess\<close>
  OK, DEADLINE_EXCEEDED and RESOURCE_EXHAUSTED; \<open>Stat\<close> OK, DEADLINE_EXCEEDED and
  NOT_FOUND; \<open>List\<close> OK and DEADLINE_EXCEEDED; the delete call of \<open>Delete\<close> (made once
  the lock is granted) OK, DEADLINE_EXCEEDED and NOT_FOUND; the finish of the stream of
  \<open>Store\<close> (reached when the lock is granted and the local file opens) OK and
  DEADLINE_EXCEEDED; the finish of the stream of \<open>Fetch\<close> (reached when \<open>Stat\<close> is OK
  and the checksums differ) OK, DEADLINE_EXCEEDED and NOT_FOUND. No operation hands on
  ALREADY_EXISTS.
\<close>

theorem C5_translation:
  "RequestWriteAccess env filename =
     (if lock_reply env \<in> {OK, DEADLINE_EXCEEDED, RESOURCE_EXHAUSTED}
      then lock_reply env else CANCELLED)
   \<and> fst (Stat env filename file_status) =
     (if fst (status_reply env) \<in> {OK, DEADLINE_EXCEEDED, NOT_FOUND}
      then fst (status_reply env) else CANCELLED)
   \<and> fst (List_files env file_map) =
     (if fst (list_reply env) \<in> {OK, DEADLINE_EXCEEDED}
      then fst (list_reply env) else CANCELLED)
   \<and> (lock_reply env = OK \<longrightarrow>
        fst (Delete env filename c) =
          (if delete_reply env \<in> {OK, DEADLINE_EXCEEDED, NOT_FOUND}
           then delete_reply env else CANCELLED))
   \<and> (fst (status_reply env) \<in> {OK, NOT_FOUND}
        \<and> crc (map_option content (local_files c (WrapPath (c_mount_path c) filename)))
            \<noteq> static_cast_uint32
                 (fs_server_crc (snd (Stat env filename (file_status_declared env))))
        \<and> lock_reply env = OK
        \<and> local_files c (WrapPath (c_mount_path c) filename) \<noteq> None \<longrightarrow>
        fst (Store crc env filename c) =
          (if store_reply env \<in> {OK, DEADLINE_EXCEEDED}
           then store_reply env else CANCELLED))
   \<and> (fst (status_reply env) = OK
        \<and> crc (map_option content (local_files c (WrapPath (c_mount_path c) filename)))
            \<noteq> static_cast_uint32
                 (fs_server_crc (snd (Stat env filename (file_status_declared env)))) \<longrightarrow>
        fst (Fetch crc env filename c) =
          (if snd (get_reply env) \<in> {OK, DEADLINE_EXCEEDED, NOT_FOUND}
           then snd (get_reply env) else CANCELLED))"
proof (intro conjI impI)
  show "RequestWriteAccess env filename =
     (if lock_reply env \<in> {OK, DEADLINE_EXCEEDED, RESOURCE_EXHAUSTED}
      then lock_reply env else CANCELLED)"
    by (simp add: RequestWriteAccess_def)
  show "fst (Stat env filename file_status) =
     (if fst (status_reply env) \<in> {OK, DEADLINE_EXCEEDED, NOT_FOUND}
      then fst (status_reply env) else CANCELLED)"
    by (simp add: Stat_status)
  show "fst (List_files env file_map) =
     (if fst (list_reply env) \<in> {OK, DEADLINE_EXCEEDED}
      then fst (list_reply env) else CANCELLED)"
    by (simp add: List_files_def split: prod.split)
next
  assume "lock_reply env = OK"
  then show "fst (Delete env filename c) =
          (if delete_reply env \<in> {OK, DEADLINE_EXCEEDED, NOT_FOUND}
           then delete_reply env else CANCELLED)"
    by (simp add: Delete_def RequestWriteAccess_def)
next
  assume a: "fst (status_reply env) \<in> {OK, NOT_FOUND}
        \<and> crc (map_option content (local_files c (WrapPath (c_mount_path c) filename)))
            \<noteq> static_cast_uint32
                 (fs_server_crc (snd (Stat env filename (file_status_declared env))))
        \<and> lock_reply env = OK
        \<and> local_files c (WrapPath (c_mount_path c) filename) \<noteq> None"
  obtain st fs where e: "Stat env filename (file_status_declared env) = (st, fs)"
    by (cases "Stat env filename (file_status_declared env)")
  from a have "st = OK \<or> st = NOT_FOUND"
    using Stat_status [of env filename "file_status_declared env"] e by auto
  with a e show "fst (Store crc env filename c) =
          (if store_reply env \<in> {OK, DEADLINE_EXCEEDED}
           then store_reply env else CANCELLED)"
    by (auto simp: Store_def RequestWriteAccess_def Let_def)
next
  assume a: "fst (status_reply env) = OK
        \<and> crc (map_option content (local_files c (WrapPath (c_mount_path c) filename)))
            \<noteq> static_cast_uint32
                 (fs_server_crc (snd (Stat env filename (file_status_declared env))))"
  obtain st fs where e: "Stat env filename (file_status_declared env) = (st, fs)"
    by (cases "Stat env filename (file_status_declared env)")
  from a have "st = OK"
    using Stat_status [of env filename "file_status_declared env"] e by auto
  with a e show "fst (Fetch crc env filename c) =
          (if snd (get_reply env) \<in> {OK, DEADLINE_EXCEEDED, NOT_FOUND}
           then snd (get_reply env) else CANCELLED)"
    by (auto simp: Fetch_def Let_def split: prod.split)
qed

theorem C5_translation_witness:
  "RequestWriteAccess (example_env\<lparr>lock_reply := RESOURCE_EXHAUSTED\<rparr>) ''a'' = RESOURCE_EXHAUSTED
   \<and> fst (Stat (example_env\<lparr>status_reply := (UNAVAILABLE, example_response)\<rparr>) ''a''
          zero_file_status) = CANCELLED
   \<and> fst (List_files (example_env\<lparr>list_reply := (NOT_FOUND, [])\<rparr>) Map.empty) = CANCELLED
   \<and> fst (Delete (example_env\<lparr>delete_reply := NOT_FOUND\<rparr>) ''a'' example_client) = NOT_FOUND
   \<and> fst (Store checksum_of
         (example_env\<lparr>status_reply := (OK, example_response\<lparr>sp_crc := 5\<rparr>),
                       store_reply := NOT_FOUND\<rparr>) ''a'' example_client) = CANCELLED
   \<and> fst (Fetch checksum_of
         (example_env\<lparr>status_reply := (OK, example_response\<lparr>sp_crc := 5\<rparr>),
                       get_reply := ([], NOT_FOUND)\<rparr>) ''a'' example_client) = NOT_FOUND"
proof -
  let ?e = "example_env\<lparr>status_reply := (OK, example_response\<lparr>sp_crc := 5\<rparr>)\<rparr>"
  have differ:
    "checksum_of (map_option content
        (local_files example_client (WrapPath (c_mount_path example_client) ''a'')))
     \<noteq> static_cast_uint32 5"
    by (simp add: example_client_def WrapPath_def checksum_of_def crc32_a
        static_cast_uint32_def)
  have present: "local_files example_client (WrapPath (c_mount_path example_client) ''a'') \<noteq> None"
    by (simp add: example_client_def WrapPath_def)
  note t = C5_translation [where filename = "''a''" and c = example_client
      and crc = checksum_of and file_status = zero_file_status and file_map = Map.empty]
  show ?thesis
    using t [where env = "example_env\<lparr>lock_reply := RESOURCE_EXHAUSTED\<rparr>"]
      t [where env = "example_env\<lparr>status_reply := (UNAVAILABLE, example_response)\<rparr>"]
      t [where env = "example_env\<lparr>list_reply := (NOT_FOUND, [])\<rparr>"]
      t [where env = "example_env\<lparr>delete_reply := NOT_FOUND\<rparr>"]
      t [where env = "?e\<lparr>store_reply := NOT_FOUND\<rparr>"]
      t [where env = "?e\<lparr>get_reply := ([], NOT_FOUND)\<rparr>"]
      differ present
    by (simp add: example_env_def Stat_def example_response_def)
qed

subsection \<open>C1: the write-lock registry\<close>

lemma card_owners: "card (owners s filename) \<le> 1"
  by (simp add: owners_def split: option.split)

lemma DFSRequestLock_granted:
  "free_or_owned_by s (lr_filename request) (lr_cid request) \<Longrightarrow>
     DFSRequestLock False request s =
       (OK, \<lparr>locked = True\<rparr>,
        s\<lparr>write_locks := (write_locks s)(lr_filename request \<mapsto> lr_cid request)\<rparr>)"
  by (auto simp: DFSRequestLock_def free_or_owned_by_def subscript_def Let_def
      split: option.splits)

lemma DFSRequestLock_busy:
  "\<not> free_or_owned_by s (lr_filename request) (lr_cid request) \<Longrightarrow>
     DFSRequestLock False request s = (RESOURCE_EXHAUSTED, \<lparr>locked = False\<rparr>, s)"
  by (auto simp: DFSRequestLock_def free_or_owned_by_def subscript_def Let_def
      split: option.splits)

lemma DFSRequestLock_cancelled:
  "DFSRequestLock True request s = (DEADLINE_EXCEEDED, \<lparr>locked = False\<rparr>, s)"
  by (simp add: DFSRequestLock_def LockResponse_default_def)

lemma release_absent: "write_locks s filename = None \<Longrightarrow> release filename s = s"
  by (simp add: release_def erase_def fun_upd_idem)

lemma release_frees: "free_or_owned_by (release filename s) filename cid"
  by (simp add: release_def erase_def free_or_owned_by_def)

text \<open>
  C1, as stated: a request is granted if and only if the owner of the file name is absent,
  empty or the requesting client, and is answered Busy otherwise. It fails on a request
  whose context is already cancelled: the lock of \<open>a\<close> is free on the example server, and
  the handler answers DEADLINE_EXCEEDED, which is neither the grant nor Busy.
\<close>

theorem C1_lock_registry_counterexample:
  "free_or_owned_by example_server ''a'' ''A''
   \<and> fst (DFSRequestLock True \<lparr>lr_filename = ''a'', lr_cid = ''A''\<rparr> example_server)
       = DEADLINE_EXCEEDED
   \<and> fst (DFSRequestLock True \<lparr>lr_filename = ''a'', lr_cid = ''A''\<rparr> example_server) \<noteq> OK
   \<and> fst (DFSRequestLock True \<lparr>lr_filename = ''a'', lr_cid = ''A''\<rparr> example_server)
       \<noteq> RESOURCE_EXHAUSTED"
  by (simp add: DFSRequestLock_def free_or_owned_by_def example_server_def)

text \<open>
  C1, amended. After every sequence of requests and releases, and so after every prefix of
  one, a file name has at most one owner. A request whose context is not cancelled is
  granted if and only if the owner of the file name is absent, the empty string or the
  requesting client; on the grant the answer is OK with \<open>locked = true\<close> and the owner
  becomes the requesting client; otherwise the answer is RESOURCE_EXHAUSTED with
  \<open>locked = false\<close> and the registry is unchanged. A request whose context is cancelled is
  answered DEADLINE_EXCEEDED and leaves the registry unchanged. Releasing a file name that
  is absent leaves the registry unchanged.
\<close>

theorem C1_lock_registry:
  "card (owners (run_lock_ops (take n ops) s) filename) \<le> 1
   \<and> (fst (DFSRequestLock False request s) = OK)
       = free_or_owned_by s (lr_filename request) (lr_cid request)
   \<and> (free_or_owned_by s (lr_filename request) (lr_cid request) \<longrightarrow>
        DFSRequestLock False request s =
          (OK, \<lparr>locked = True\<rparr>,
           s\<lparr>write_locks := (write_locks s)(lr_filename request \<mapsto> lr_cid request)\<rparr>))
   \<and> (\<not> free_or_owned_by s (lr_filename request) (lr_cid request) \<longrightarrow>
        DFSRequestLock False request s = (RESOURCE_EXHAUSTED, \<lparr>locked = False\<rparr>, s))
   \<and> DFSRequestLock True request s = (DEADLINE_EXCEEDED, \<lparr>locked = False\<rparr>, s)
   \<and> (write_locks s filename = None \<longrightarrow> release filename s = s)"
proof -
  have iff: "(fst (DFSRequestLock False request s) = OK)
       = free_or_owned_by s (lr_filename request) (lr_cid request)"
  proof (cases "free_or_owned_by s (lr_filename request) (lr_cid request)")
    case True
    then show ?thesis by (simp add: DFSRequestLock_granted)
  next
    case False
    then show ?thesis by (simp add: DFSRequestLock_busy)
  qed
  show ?thesis
    using iff card_owners DFSRequestLock_granted DFSRequestLock_busy
      DFSRequestLock_cancelled release_absent
    by blast
qed

theorem C1_lock_registry_witness:
  "card (owners (run_lock_ops
        (take 3 [RequestLock False \<lparr>lr_filename = ''a'', lr_cid = ''A''\<rparr>,
                 RequestLock False \<lparr>lr_filename = ''a'', lr_cid = ''B''\<rparr>,
                 Release ''a'',
                 RequestLock True \<lparr>lr_filename = ''a'', lr_cid = ''B''\<rparr>])
        example_server) ''a'') \<le> 1
   \<and> free_or_owned_by example_server ''a'' ''A''
   \<and> DFSRequestLock False \<lparr>lr_filename = ''a'', lr_cid = ''A''\<rparr> example_server =
       (OK, \<lparr>locked = True\<rparr>, example_server\<lparr>write_locks := [''a'' \<mapsto> ''A'']\<rparr>)
   \<and> \<not> free_or_owned_by (example_server\<lparr>write_locks := [''a'' \<mapsto> ''A'']\<rparr>) ''a'' ''B''
   \<and> DFSRequestLock False \<lparr>lr_filename = ''a'', lr_cid = ''B''\<rparr>
         (example_server\<lparr>write_locks := [''a'' \<mapsto> ''A'']\<rparr>) =
       (RESOURCE_EXHAUSTED, \<lparr>locked = False\<rparr>,
        example_server\<lparr>write_locks := [''a'' \<mapsto> ''A'']\<rparr>)
   \<and> write_locks example_server ''b'' = None
   \<and> release ''b'' example_server = example_server"
proof -
  note t = C1_lock_registry [where n = 3 and filename = "''a''"
      and ops = "[RequestLock False \<lparr>lr_filename = ''a'', lr_cid = ''A''\<rparr>,
                 RequestLock False \<lparr>lr_filename = ''a'', lr_cid = ''B''\<rparr>,
                 Release ''a'',
                 RequestLock True \<lparr>lr_filename = ''a'', lr_cid = ''B''\<rparr>]"]
  have free: "free_or_owned_by example_server ''a'' ''A''"
    by (simp add: free_or_owned_by_def example_server_def)
  have held: "\<not> free_or_owned_by (example_server\<lparr>write_locks := [''a'' \<mapsto> ''A'']\<rparr>) ''a'' ''B''"
    by (simp add: free_or_owned_by_def)
  have absent: "write_locks example_server ''b'' = None"
    by (simp add: example_server_def)
  show ?thesis
    using free held absent
      t [where s = example_server and request = "\<lparr>lr_filename = ''a'', lr_cid = ''A''\<rparr>"]
      t [where s = "example_server\<lparr>write_locks := [''a'' \<mapsto> ''A'']\<rparr>"
          and request = "\<lparr>lr_filename = ''a'', lr_cid = ''B''\<rparr>"]
      C1_lock_registry [where s = example_server and filename = "''b''"]
    by (simp add: example_server_def)
qed

subsection \<open>C3: a store that is abandoned\<close>

lemma write_locks_release: "write_locks (release filename s) filename = None"
  by (simp add: release_def erase_def)

lemma store_loop_releases:
  "store_loop reader False filename s = (status, s') \<Longrightarrow> write_locks s' filename = None"
proof (induction reader arbitrary: s)
  case Nil
  then show ?case by (auto simp: write_locks_release)
next
  case (Cons m reader)
  obtain request is_cancelled where m: "m = (request, is_cancelled)"
    by (cases m)
  show ?case
  proof (cases is_cancelled)
    case True
    with Cons.prems m show ?thesis by (auto simp: write_locks_release)
  next
    case False
    with Cons.prems m Cons.IH show ?thesis by (simp add: Let_def)
  qed
qed

text \<open>
  Once the first message has been handled, the handler knows the file name, and every way
  out of the loop releases its lock: a later request for it, by any client, is granted.
\<close>

lemma DFSStoreFile_releases_after_first_chunk:
  assumes "DFSStoreFile ((request, False) # reader) s = (status, s')"
  shows "write_locks s' (sr_filename request) = None"
    and "fst (DFSRequestLock False \<lparr>lr_filename = sr_filename request, lr_cid = cid\<rparr> s') = OK"
proof -
  from assms show none: "write_locks s' (sr_filename request) = None"
    by (simp add: DFSStoreFile_def Let_def store_loop_releases)
  then have "free_or_owned_by s' (sr_filename request) cid"
    by (simp add: free_or_owned_by_def)
  then show "fst (DFSRequestLock False \<lparr>lr_filename = sr_filename request, lr_cid = cid\<rparr> s') = OK"
    using DFSRequestLock_granted
      [of s' "\<lparr>lr_filename = sr_filename request, lr_cid = cid\<rparr>"]
    by simp
qed

text \<open>
  C3: a store abandoned at any point of the stream, the first chunk included, releases the
  lock of its file before it returns DEADLINE_EXCEEDED, so that a later request for the
  lock succeeds. The code does not do this at the first chunk. Client \<open>A\<close> holds the lock
  of \<open>big\<close>; the first message of its store is handled with the context cancelled. The
  handler has not read the file name yet: it erases the entry of the empty name and
  returns DEADLINE_EXCEEDED, \<open>A\<close> still owns \<open>big\<close>, and the request of client \<open>B\<close> for
  \<open>big\<close> is answered RESOURCE_EXHAUSTED. When the stream ends before any message arrives,
  the handler returns OK and the lock stays as well.
\<close>

theorem C3_store_cancelled_at_first_chunk:
  "fst (DFSStoreFile [(\<lparr>sr_filename = ''big'', sr_filechunk = [1, 2, 3]\<rparr>, True)]
         (example_server\<lparr>write_locks := [''big'' \<mapsto> ''A'']\<rparr>)) = DEADLINE_EXCEEDED
   \<and> write_locks
        (snd (DFSStoreFile [(\<lparr>sr_filename = ''big'', sr_filechunk = [1, 2, 3]\<rparr>, True)]
               (example_server\<lparr>write_locks := [''big'' \<mapsto> ''A'']\<rparr>))) ''big'' = Some ''A''
   \<and> fst (DFSRequestLock False \<lparr>lr_filename = ''big'', lr_cid = ''B''\<rparr>
        (snd (DFSStoreFile [(\<lparr>sr_filename = ''big'', sr_filechunk = [1, 2, 3]\<rparr>, True)]
               (example_server\<lparr>write_locks := [''big'' \<mapsto> ''A'']\<rparr>)))) = RESOURCE_EXHAUSTED
   \<and> fst (DFSStoreFile [] (example_server\<lparr>write_locks := [''big'' \<mapsto> ''A'']\<rparr>)) = OK
   \<and> write_locks
        (snd (DFSStoreFile [] (example_server\<lparr>write_locks := [''big'' \<mapsto> ''A'']\<rparr>)))
        ''big'' = Some ''A''"
  by (simp add: DFSStoreFile_def release_def erase_def DFSRequestLock_def subscript_def
      example_server_def)

subsection \<open>C6: the chunks of a transfer\<close>

lemma send_loop_eof: "eofbit f \<Longrightarrow> send_loop filename f sent = sent"
  by (subst send_loop.simps) simp

lemma send_loop_full:
  "\<not> eofbit f \<Longrightarrow> buffer_size \<le> length (unread f) \<Longrightarrow>
     send_loop filename f sent =
       send_loop filename (f\<lparr>unread := drop buffer_size (unread f)\<rparr>)
         (sent @ [\<lparr>sr_filename = filename, sr_filechunk = take buffer_size (unread f)\<rparr>])"
  by (subst send_loop.simps) (simp add: ifstream_read_def)

lemma send_loop_short:
  "\<not> eofbit f \<Longrightarrow> length (unread f) < buffer_size \<Longrightarrow>
     send_loop filename f sent =
       sent @ [\<lparr>sr_filename = filename, sr_filechunk = unread f\<rparr>]"
  by (subst send_loop.simps) (simp add: ifstream_read_def send_loop_eof)

lemma get_loop_eof: "eofbit f \<Longrightarrow> get_loop is_cancelled i f written = (OK, written)"
  by (subst get_loop.simps) simp

lemma get_loop_cancelled:
  "\<not> eofbit f \<Longrightarrow> is_cancelled i \<Longrightarrow>
     get_loop is_cancelled i f written = (DEADLINE_EXCEEDED, written)"
  by (subst get_loop.simps) simp

lemma get_loop_full:
  "\<not> eofbit f \<Longrightarrow> \<not> is_cancelled i \<Longrightarrow> buffer_size \<le> length (unread f) \<Longrightarrow>
     get_loop is_cancelled i f written =
       get_loop is_cancelled (Suc i) (f\<lparr>unread := drop buffer_size (unread f)\<rparr>)
         (written @ [take buffer_size (unread f)])"
  by (subst get_loop.simps) (simp add: ifstream_read_def)

lemma get_loop_short:
  "\<not> eofbit f \<Longrightarrow> \<not> is_cancelled i \<Longrightarrow> length (unread f) < buffer_size \<Longrightarrow>
     get_loop is_cancelled i f written = (OK, written @ [unread f])"
  by (subst get_loop.simps) (simp add: ifstream_read_def get_loop_eof)

text \<open>
  What the sending loop sends, in general: the chunks put together are the bytes that were
  still unread, every request carries the file name, no chunk is longer than the buffer,
  and a file of \<open>n\<close> bytes takes \<open>n div 256 + 1\<close> requests.
\<close>

lemma send_loop_concat:
  "concat (map sr_filechunk (send_loop filename f sent)) =
     concat (map sr_filechunk sent) @ (if eofbit f then [] else unread f)"
proof (induction filename f sent rule: send_loop.induct)
  case (1 filename f sent)
  show ?case
  proof (cases "eofbit f")
    case True
    then show ?thesis by (simp add: send_loop_eof)
  next
    case False
    show ?thesis
    proof (cases "buffer_size \<le> length (unread f)")
      case True
      have "ifstream_read buffer_size f =
          (take buffer_size (unread f), f\<lparr>unread := drop buffer_size (unread f)\<rparr>)"
        using True by (simp add: ifstream_read_def)
      from "1.IH" [OF \<open>\<not> eofbit f\<close> this [symmetric]] True False show ?thesis
        by (simp add: send_loop_full)
    next
      case False
      with \<open>\<not> eofbit f\<close> show ?thesis by (simp add: send_loop_short)
    qed
  qed
qed

lemma send_loop_length:
  "length (send_loop filename f sent) =
     length sent + (if eofbit f then 0 else length (unread f) div buffer_size + 1)"
proof (induction filename f sent rule: send_loop.induct)
  case (1 filename f sent)
  show ?case
  proof (cases "eofbit f")
    case True
    then show ?thesis by (simp add: send_loop_eof)
  next
    case False
    show ?thesis
    proof (cases "buffer_size \<le> length (unread f)")
      case True
      have "ifstream_read buffer_size f =
          (take buffer_size (unread f), f\<lparr>unread := drop buffer_size (unread f)\<rparr>)"
        using True by (simp add: ifstream_read_def)
      from "1.IH" [OF \<open>\<not> eofbit f\<close> this [symmetric]] True False show ?thesis
        by (simp add: send_loop_full le_div_geq buffer_size_def)
    next
      case False
      with \<open>\<not> eofbit f\<close> show ?thesis by (simp add: send_loop_short)
    qed
  qed
qed

lemma send_loop_256:
  "length bs = 256 \<Longrightarrow>
     send_loop filename (ifstream_open bs) [] =
       [\<lparr>sr_filename = filename, sr_filechunk = bs\<rparr>,
        \<lparr>sr_filename = filename, sr_filechunk = []\<rparr>]"
  by (simp add: send_loop_full send_loop_short ifstream_open_def buffer_size_def)

lemma get_loop_256:
  "length bs = 256 \<Longrightarrow> \<not> is_cancelled 0 \<Longrightarrow> \<not> is_cancelled 1 \<Longrightarrow>
     get_loop is_cancelled 0 (ifstream_open bs) [] = (OK, [bs, []])"
  by (simp add: get_loop_full get_loop_short ifstream_open_def buffer_size_def)

lemma Store_streams:
  assumes "fst (status_reply env) = OK \<or> fst (status_reply env) = NOT_FOUND"
    and "crcs_differ crc env filename c"
    and "lock_reply env = OK"
    and "local_files c (WrapPath (c_mount_path c) filename) = Some f"
  shows "Store crc env filename c =
     (if store_reply env = OK then OK
      else if store_reply env = DEADLINE_EXCEEDED then DEADLINE_EXCEEDED
      else CANCELLED,
      c,
      [Call_DFSStatus filename, Call_DFSRequestLock filename (client_id c),
       Call_DFSStoreFile (send_loop filename (ifstream_open (content f)) [])])"
proof -
  obtain st fs where e: "Stat env filename (file_status_declared env) = (st, fs)"
    by (cases "Stat env filename (file_status_declared env)")
  from assms(1) have "st = OK \<or> st = NOT_FOUND"
    using Stat_status [of env filename "file_status_declared env"] e by auto
  with assms e show ?thesis
    by (auto simp: Store_def RequestWriteAccess_def Let_def crcs_differ_def)
qed

text \<open>
  C6, as stated: a file of exactly 256 bytes travels as exactly one chunk, and no empty
  chunk is sent after it. It fails in both directions: the loops test the end-of-file bit,
  which a read sets only when it runs into the end, so after the read of the 256 bytes
  they read once more and send what that read delivered, an empty chunk.
\<close>

theorem C6_chunks_counterexample:
  "send_loop ''f'' (ifstream_open (replicate 256 0)) [] =
     [\<lparr>sr_filename = ''f'', sr_filechunk = replicate 256 0\<rparr>,
      \<lparr>sr_filename = ''f'', sr_filechunk = []\<rparr>]
   \<and> length (send_loop ''f'' (ifstream_open (replicate 256 0)) []) = 2
   \<and> DFSGetFile (\<lambda>i. False) ''f''
        (example_server\<lparr>files := [''/srv/f'' \<mapsto> \<lparr>content = replicate 256 0, mtime = 1, atime = 1\<rparr>]\<rparr>)
      = (OK, [replicate 256 0, []])"
  by (simp add: send_loop_256 get_loop_256 DFSGetFile_def example_server_def WrapPath_def)

text \<open>
  C6, amended: a file of exactly 256 bytes travels as one chunk of 256 bytes followed by
  one empty chunk. This is what the sending loop of \<open>Store\<close> sends, what a \<open>Store\<close> that
  reaches its stream hands to the transport, and what the handler of \<open>Fetch\<close> writes
  when the call is not cancelled in its two iterations.
\<close>

theorem C6_chunks:
  "length bs = 256 \<longrightarrow>
     send_loop filename (ifstream_open bs) [] =
       [\<lparr>sr_filename = filename, sr_filechunk = bs\<rparr>,
        \<lparr>sr_filename = filename, sr_filechunk = []\<rparr>]
     \<and> ((fst (status_reply env) = OK \<or> fst (status_reply env) = NOT_FOUND)
          \<and> crcs_differ crc env filename c \<and> lock_reply env = OK
          \<and> local_files c (WrapPath (c_mount_path c) filename) = Some f \<and> content f = bs \<longrightarrow>
          snd (snd (Store crc env filename c)) =
            [Call_DFSStatus filename, Call_DFSRequestLock filename (client_id c),
             Call_DFSStoreFile
               [\<lparr>sr_filename = filename, sr_filechunk = bs\<rparr>,
                \<lparr>sr_filename = filename, sr_filechunk = []\<rparr>]])
     \<and> (\<not> is_cancelled 0 \<and> \<not> is_cancelled 1
          \<and> files s (WrapPath (mount_path s) filename) = Some g \<and> content g = bs \<longrightarrow>
          DFSGetFile is_cancelled filename s = (OK, [bs, []]))"
proof (intro impI conjI)
  assume len: "length bs = 256"
  then show "send_loop filename (ifstream_open bs) [] =
       [\<lparr>sr_filename = filename, sr_filechunk = bs\<rparr>,
        \<lparr>sr_filename = filename, sr_filechunk = []\<rparr>]"
    by (rule send_loop_256)
  {
    assume a: "(fst (status_reply env) = OK \<or> fst (status_reply env) = NOT_FOUND)
          \<and> crcs_differ crc env filename c \<and> lock_reply env = OK
          \<and> local_files c (WrapPath (c_mount_path c) filename) = Some f \<and> content f = bs"
    then have "Store crc env filename c =
       (if store_reply env = OK then OK
        else if store_reply env = DEADLINE_EXCEEDED then DEADLINE_EXCEEDED
        else CANCELLED,
        c,
        [Call_DFSStatus filename, Call_DFSRequestLock filename (client_id c),
         Call_DFSStoreFile (send_loop filename (ifstream_open (content f)) [])])"
      by (intro Store_streams) simp_all
    with a len show "snd (snd (Store crc env filename c)) =
            [Call_DFSStatus filename, Call_DFSRequestLock filename (client_id c),
             Call_DFSStoreFile
               [\<lparr>sr_filename = filename, sr_filechunk = bs\<rparr>,
                \<lparr>sr_filename = filename, sr_filechunk = []\<rparr>]]"
      by (simp add: send_loop_256)
  }
  {
    assume b: "\<not> is_cancelled 0 \<and> \<not> is_cancelled 1
          \<and> files s (WrapPath (mount_path s) filename) = Some g \<and> content g = bs"
    with len show "DFSGetFile is_cancelled filename s = (OK, [bs, []])"
      by (simp add: DFSGetFile_def get_loop_256)
  }
qed

theorem C6_chunks_witness:
  "length (replicate 256 (0::byte)) = 256
   \<and> send_loop ''f'' (ifstream_open (replicate 256 0)) [] =
       [\<lparr>sr_filename = ''f'', sr_filechunk = replicate 256 0\<rparr>,
        \<lparr>sr_filename = ''f'', sr_filechunk = []\<rparr>]
   \<and> snd (snd (Store checksum_of
        (example_env\<lparr>status_reply :=
           (OK, example_response\<lparr>sp_crc := uint (crc32 (replicate 256 0)) + 1\<rparr>)\<rparr>) ''f''
        (example_client\<lparr>local_files :=
           [''/cli/f'' \<mapsto> \<lparr>content = replicate 256 0, mtime = 1, atime = 1\<rparr>]\<rparr>))) =
       [Call_DFSStatus ''f'', Call_DFSRequestLock ''f'' ''A'',
        Call_DFSStoreFile
          [\<lparr>sr_filename = ''f'', sr_filechunk = replicate 256 0\<rparr>,
           \<lparr>sr_filename = ''f'', sr_filechunk = []\<rparr>]]
   \<and> DFSGetFile (\<lambda>i. False) ''f''
        (example_server\<lparr>files := [''/srv/f'' \<mapsto> \<lparr>content = replicate 256 0, mtime = 1, atime = 1\<rparr>]\<rparr>)
      = (OK, [replicate 256 0, []])"
proof -
  let ?env = "example_env\<lparr>status_reply :=
           (OK, example_response\<lparr>sp_crc := uint (crc32 (replicate 256 0)) + 1\<rparr>)\<rparr>"
  let ?c = "example_client\<lparr>local_files :=
           [''/cli/f'' \<mapsto> \<lparr>content = replicate 256 0, mtime = 1, atime = 1\<rparr>]\<rparr>"
  let ?s = "example_server\<lparr>files := [''/srv/f'' \<mapsto> \<lparr>content = replicate 256 0, mtime = 1, atime = 1\<rparr>]\<rparr>"
  have differ: "crcs_differ checksum_of ?env ''f'' ?c"
    by (simp add: crcs_differ_def Stat_def example_client_def WrapPath_def checksum_of_def
        static_cast_uint32_def)
  have here: "local_files ?c (WrapPath (c_mount_path ?c) ''f'')
      = Some \<lparr>content = replicate 256 0, mtime = 1, atime = 1\<rparr>"
    by (simp add: example_client_def WrapPath_def)
  have there: "files ?s (WrapPath (mount_path ?s) ''f'')
      = Some \<lparr>content = replicate 256 0, mtime = 1, atime = 1\<rparr>"
    by (simp add: example_server_def WrapPath_def)
  have st: "fst (status_reply ?env) = OK" "lock_reply ?env = OK"
    by (simp_all add: example_env_def)
  show ?thesis
    using C6_chunks [where bs = "replicate 256 0" and filename = "''f''" and env = ?env
        and crc = checksum_of and c = ?c and f = "\<lparr>content = replicate 256 0, mtime = 1, atime = 1\<rparr>"
        and is_cancelled = "\<lambda>i. False" and s = ?s
        and g = "\<lparr>content = replicate 256 0, mtime = 1, atime = 1\<rparr>"]
      differ here there st
    by (simp add: example_client_def)
qed

subsection \<open>C4: equal checksums\<close>

lemma utime_content:
  "map_option content (utime path buf fs p) = map_option content (fs p)"
  by (simp add: utime_def split: option.split)

lemma utime_other: "p \<noteq> path \<Longrightarrow> utime path buf fs p = fs p"
  by (simp add: utime_def split: option.split)

lemma utime_here:
  "fs path = Some f \<Longrightarrow>
     utime path buf fs path = Some (f\<lparr>atime := actime buf, mtime := modtime buf\<rparr>)"
  by (simp add: utime_def)

text \<open>
  What \<open>Store\<close> and \<open>Fetch\<close> do when \<open>Stat\<close> is OK and the checksums are equal: they
  return ALREADY_EXISTS, the status call is their only call, and the local files change
  by one call of \<^verbatim>\<open>utime\<close> on the named file. By \<open>utime_content\<close> and \<open>utime_other\<close>
  the bytes of every file and all of every other file are as before; by \<open>utime_here\<close>
  the named file gets the modification time the server reported and, as its access time,
  what the undefined field \<^verbatim>\<open>recent.actime\<close> held.
\<close>

lemma Store_equal:
  assumes "status_reply env = (OK, response)"
    and "crc (map_option content (local_files c (WrapPath (c_mount_path c) filename)))
         = static_cast_uint32 (sp_crc response)"
  shows "Store crc env filename c =
     (ALREADY_EXISTS,
      c\<lparr>local_files :=
          utime (WrapPath (c_mount_path c) filename)
            ((utimbuf_declared env)\<lparr>modtime := sp_mtime response\<rparr>) (local_files c)\<rparr>,
      [Call_DFSStatus filename])"
  using assms by (simp add: Store_def Stat_OK Let_def)

lemma Fetch_equal:
  assumes "status_reply env = (OK, response)"
    and "crc (map_option content (local_files c (WrapPath (c_mount_path c) filename)))
         = static_cast_uint32 (sp_crc response)"
  shows "Fetch crc env filename c =
     (ALREADY_EXISTS,
      c\<lparr>local_files :=
          utime (WrapPath (c_mount_path c) filename)
            ((utimbuf_declared env)\<lparr>modtime := sp_mtime response\<rparr>) (local_files c)\<rparr>,
      [Call_DFSStatus filename])"
  using assms by (simp add: Fetch_def Stat_OK Let_def)

lemma equal_checksums_access_time:
  assumes "status_reply env = (OK, response)"
    and "crc (map_option content (local_files c (WrapPath (c_mount_path c) filename)))
         = static_cast_uint32 (sp_crc response)"
    and "local_files c (WrapPath (c_mount_path c) filename) = Some f"
  shows "local_files (fst (snd (Store crc env filename c))) (WrapPath (c_mount_path c) filename)
       = Some (f\<lparr>atime := actime (utimbuf_declared env), mtime := sp_mtime response\<rparr>)"
    and "local_files (fst (snd (Fetch crc env filename c))) (WrapPath (c_mount_path c) filename)
       = Some (f\<lparr>atime := actime (utimbuf_declared env), mtime := sp_mtime response\<rparr>)"
  using assms by (simp_all add: Store_equal Fetch_equal utime_here)

text \<open>
  C4: when the checksum of the local file equals the one \<open>Stat\<close> reports, \<open>Store\<close> and
  \<open>Fetch\<close> return ALREADY_EXISTS, transfer nothing, request no lock and change nothing
  but the modification time of the local file. The code changes one thing more. It
  declares \<^verbatim>\<open>struct utimbuf recent;\<close>, assigns \<^verbatim>\<open>recent.modtime\<close> only and hands the
  structure to \<^verbatim>\<open>utime\<close>, which sets both times: the access time of the local file
  becomes what the unassigned field held. The client's file \<open>a\<close> has the access time 400
  and the field holds 0; after \<open>Store\<close>, and after \<open>Fetch\<close>, the file has the
  modification time 1000 of the server, its bytes as before, and the access time 0.
\<close>

theorem C4_utime_rewrites_access_time:
  "local_files example_client ''/cli/a'' = Some \<lparr>content = [0x61], mtime = 500, atime = 400\<rparr>
   \<and> Store checksum_of example_env ''a'' example_client =
       (ALREADY_EXISTS,
        example_client\<lparr>local_files :=
          [''/cli/a'' \<mapsto> \<lparr>content = [0x61], mtime = 1000, atime = 0\<rparr>]\<rparr>,
        [Call_DFSStatus ''a''])
   \<and> Fetch checksum_of example_env ''a'' example_client =
       (ALREADY_EXISTS,
        example_client\<lparr>local_files :=
          [''/cli/a'' \<mapsto> \<lparr>content = [0x61], mtime = 1000, atime = 0\<rparr>]\<rparr>,
        [Call_DFSStatus ''a''])"
proof -
  have reply: "status_reply example_env = (OK, example_response)"
    by (simp add: example_env_def)
  have equal: "checksum_of (map_option content
        (local_files example_client (WrapPath (c_mount_path example_client) ''a'')))
       = static_cast_uint32 (sp_crc example_response)"
    by (simp add: example_client_def WrapPath_def checksum_of_def crc32_a
        example_response_def static_cast_uint32_def)
  have path: "WrapPath (c_mount_path example_client) ''a'' = ''/cli/a''"
    by (simp add: example_client_def WrapPath_def)
  have aligned: "utime ''/cli/a'' ((utimbuf_declared example_env)\<lparr>modtime := sp_mtime example_response\<rparr>)
        (local_files example_client)
      = [''/cli/a'' \<mapsto> \<lparr>content = [0x61], mtime = 1000, atime = 0\<rparr>]"
    by (simp add: utime_def example_client_def example_response_def example_env_def
        zero_utimbuf_def)
  have here: "local_files example_client ''/cli/a''
      = Some \<lparr>content = [0x61], mtime = 500, atime = 400\<rparr>"
    by (simp add: example_client_def)
  show ?thesis
    using Store_equal [where crc = checksum_of and c = example_client and filename = "''a''",
        OF reply]
      Fetch_equal [where crc = checksum_of and c = example_client and filename = "''a''",
        OF reply]
      equal here
    by (simp add: path aligned)
qed

subsection \<open>C9: a fetch that fails in its stream\<close>

lemma fold_ofstream_write:
  "fold (ofstream_write now path) chunks
       (fs(path \<mapsto> \<lparr>content = bs, mtime = now, atime = a\<rparr>))
     = fs(path \<mapsto> \<lparr>content = bs @ concat chunks, mtime = now, atime = a\<rparr>)"
  by (induction chunks arbitrary: bs) (simp_all add: ofstream_write_def)

lemma ofstream_open_here:
  "ofstream_open now path fs =
     fs(path \<mapsto> \<lparr>content = [], mtime = now,
                    atime = (case fs path of None \<Rightarrow> now | Some f \<Rightarrow> atime f)\<rparr>)"
proof (cases "fs path")
  case None
  then show ?thesis by (simp add: ofstream_open_def)
next
  case (Some f)
  then show ?thesis by (cases f) (simp add: ofstream_open_def)
qed

lemma Fetch_streams:
  assumes "fst (status_reply env) = OK"
    and "crcs_differ crc env filename c"
    and "get_reply env = (chunks, finish)"
  shows "Fetch crc env filename c =
     (if finish = OK then OK
      else if finish = DEADLINE_EXCEEDED then DEADLINE_EXCEEDED
      else if finish = NOT_FOUND then NOT_FOUND
      else CANCELLED,
      c\<lparr>local_files :=
          (local_files c)(WrapPath (c_mount_path c) filename \<mapsto>
             \<lparr>content = concat chunks, mtime = c_clock c,
              atime = (case local_files c (WrapPath (c_mount_path c) filename) of
                         None \<Rightarrow> c_clock c
                       | Some f \<Rightarrow> atime f)\<rparr>)\<rparr>,
      [Call_DFSStatus filename, Call_DFSGetFile filename])"
proof -
  obtain st fs where e: "Stat env filename (file_status_declared env) = (st, fs)"
    by (cases "Stat env filename (file_status_declared env)")
  from assms(1) have "st = OK"
    using Stat_status [of env filename "file_status_declared env"] e by auto
  with assms e show ?thesis
    by (simp add: Fetch_def Let_def crcs_differ_def ofstream_open_here fold_ofstream_write)
qed

text \<open>
  C9: a \<open>Fetch\<close> that reaches its stream (\<open>Stat\<close> is OK and the checksums differ) opens
  the local file for writing, which truncates it, before it reads the first chunk. So
  whatever the stream finishes with, the local file holds the chunks that arrived and
  nothing else, with the modification time of the fetch: after a finish other than OK
  the operation reports the failure, and the file is empty or partly written, whatever
  its content was before.
\<close>

theorem C9_fetch_not_atomic:
  "fst (status_reply env) = OK \<and> crcs_differ crc env filename c
   \<and> get_reply env = (chunks, finish) \<longrightarrow>
     map_option (\<lambda>f. (content f, mtime f))
       (local_files (fst (snd (Fetch crc env filename c))) (WrapPath (c_mount_path c) filename))
       = Some (concat chunks, c_clock c)
     \<and> snd (snd (Fetch crc env filename c)) = [Call_DFSStatus filename, Call_DFSGetFile filename]
     \<and> (finish \<noteq> OK \<longrightarrow>
          fst (Fetch crc env filename c) =
            (if finish = DEADLINE_EXCEEDED then DEADLINE_EXCEEDED
             else if finish = NOT_FOUND then NOT_FOUND else CANCELLED))
     \<and> (chunks = [] \<longrightarrow>
          map_option content
            (local_files (fst (snd (Fetch crc env filename c)))
               (WrapPath (c_mount_path c) filename)) = Some [])"
proof (intro impI)
  assume a: "fst (status_reply env) = OK \<and> crcs_differ crc env filename c
   \<and> get_reply env = (chunks, finish)"
  then have "Fetch crc env filename c =
     (if finish = OK then OK
      else if finish = DEADLINE_EXCEEDED then DEADLINE_EXCEEDED
      else if finish = NOT_FOUND then NOT_FOUND
      else CANCELLED,
      c\<lparr>local_files :=
          (local_files c)(WrapPath (c_mount_path c) filename \<mapsto>
             \<lparr>content = concat chunks, mtime = c_clock c,
              atime = (case local_files c (WrapPath (c_mount_path c) filename) of
                         None \<Rightarrow> c_clock c
                       | Some f \<Rightarrow> atime f)\<rparr>)\<rparr>,
      [Call_DFSStatus filename, Call_DFSGetFile filename])"
    by (intro Fetch_streams) simp_all
  then show "map_option (\<lambda>f. (content f, mtime f))
       (local_files (fst (snd (Fetch crc env filename c))) (WrapPath (c_mount_path c) filename))
       = Some (concat chunks, c_clock c)
     \<and> snd (snd (Fetch crc env filename c)) = [Call_DFSStatus filename, Call_DFSGetFile filename]
     \<and> (finish \<noteq> OK \<longrightarrow>
          fst (Fetch crc env filename c) =
            (if finish = DEADLINE_EXCEEDED then DEADLINE_EXCEEDED
             else if finish = NOT_FOUND then NOT_FOUND else CANCELLED))
     \<and> (chunks = [] \<longrightarrow>
          map_option content
            (local_files (fst (snd (Fetch crc env filename c)))
               (WrapPath (c_mount_path c) filename)) = Some [])"
    by simp
qed

theorem C9_fetch_not_atomic_witness:
  "local_files example_client ''/cli/a'' = Some \<lparr>content = [0x61], mtime = 500, atime = 400\<rparr>
   \<and> crcs_differ checksum_of
        (example_env\<lparr>status_reply := (OK, example_response\<lparr>sp_crc := 5\<rparr>),
                      get_reply := ([], NOT_FOUND)\<rparr>) ''a'' example_client
   \<and> fst (Fetch checksum_of
        (example_env\<lparr>status_reply := (OK, example_response\<lparr>sp_crc := 5\<rparr>),
                      get_reply := ([], NOT_FOUND)\<rparr>) ''a'' example_client) = NOT_FOUND
   \<and> map_option (\<lambda>f. (content f, mtime f))
        (local_files (fst (snd (Fetch checksum_of
          (example_env\<lparr>status_reply := (OK, example_response\<lparr>sp_crc := 5\<rparr>),
                        get_reply := ([], NOT_FOUND)\<rparr>) ''a'' example_client))) ''/cli/a'')
       = Some ([], 2000)
   \<and> fst (Fetch checksum_of
        (example_env\<lparr>status_reply := (OK, example_response\<lparr>sp_crc := 5\<rparr>),
                      get_reply := ([[7, 8], [9]], DEADLINE_EXCEEDED)\<rparr>) ''a'' example_client)
       = DEADLINE_EXCEEDED
   \<and> map_option (\<lambda>f. (content f, mtime f))
        (local_files (fst (snd (Fetch checksum_of
          (example_env\<lparr>status_reply := (OK, example_response\<lparr>sp_crc := 5\<rparr>),
                        get_reply := ([[7, 8], [9]], DEADLINE_EXCEEDED)\<rparr>) ''a''
          example_client))) ''/cli/a'')
       = Some ([7, 8, 9], 2000)"
proof -
  let ?e = "example_env\<lparr>status_reply := (OK, example_response\<lparr>sp_crc := 5\<rparr>)\<rparr>"
  have path: "WrapPath (c_mount_path example_client) ''a'' = ''/cli/a''"
    by (simp add: example_client_def WrapPath_def)
  have differ: "crcs_differ checksum_of (?e\<lparr>get_reply := g\<rparr>) ''a'' example_client" for g
    by (simp add: crcs_differ_def Stat_def example_env_def example_client_def WrapPath_def
        checksum_of_def crc32_a static_cast_uint32_def)
  have ok: "fst (status_reply (?e\<lparr>get_reply := g\<rparr>)) = OK" for g
    by simp
  note t = C9_fetch_not_atomic [where crc = checksum_of and filename = "''a''"
      and c = example_client]
  show ?thesis
    using t [where env = "?e\<lparr>get_reply := ([], NOT_FOUND)\<rparr>" and chunks = "[]"
          and finish = NOT_FOUND]
      t [where env = "?e\<lparr>get_reply := ([[7, 8], [9]], DEADLINE_EXCEEDED)\<rparr>"
          and chunks = "[[7, 8], [9]]" and finish = DEADLINE_EXCEEDED]
      differ ok
    by (simp add: path) (simp add: example_client_def)
qed

subsection \<open>C2: the decision table of Store\<close>

lemma RequestWriteAccess_not_OK:
  "lock_reply env \<noteq> OK \<Longrightarrow>
     RequestWriteAccess env filename \<noteq> OK
     \<and> (RequestWriteAccess env filename = DEADLINE_EXCEEDED
        \<or> RequestWriteAccess env filename = RESOURCE_EXHAUSTED
        \<or> RequestWriteAccess env filename = CANCELLED)"
  by (simp add: RequestWriteAccess_def Let_def)

lemma Store_lock_refused:
  assumes "fst (status_reply env) = OK \<or> fst (status_reply env) = NOT_FOUND"
    and "crcs_differ crc env filename c"
    and "lock_reply env \<noteq> OK"
  shows "Store crc env filename c =
     (RequestWriteAccess env filename, c,
      [Call_DFSStatus filename, Call_DFSRequestLock filename (client_id c)])"
proof -
  obtain st fs where e: "Stat env filename (file_status_declared env) = (st, fs)"
    by (cases "Stat env filename (file_status_declared env)")
  from assms(1) have "st = OK \<or> st = NOT_FOUND"
    using Stat_status [of env filename "file_status_declared env"] e by auto
  with assms e RequestWriteAccess_not_OK [of env filename] show ?thesis
    by (auto simp: Store_def Let_def crcs_differ_def)
qed

lemma Store_no_local_file:
  assumes "fst (status_reply env) = OK \<or> fst (status_reply env) = NOT_FOUND"
    and "crcs_differ crc env filename c"
    and "lock_reply env = OK"
    and "local_files c (WrapPath (c_mount_path c) filename) = None"
  shows "Store crc env filename c =
     (NOT_FOUND, c, [Call_DFSStatus filename, Call_DFSRequestLock filename (client_id c)])"
proof -
  obtain st fs where e: "Stat env filename (file_status_declared env) = (st, fs)"
    by (cases "Stat env filename (file_status_declared env)")
  from assms(1) have "st = OK \<or> st = NOT_FOUND"
    using Stat_status [of env filename "file_status_declared env"] e by auto
  with assms e show ?thesis
    by (auto simp: Store_def RequestWriteAccess_def Let_def crcs_differ_def)
qed

lemma Store_status_failed:
  assumes "fst (status_reply env) \<noteq> OK" and "fst (status_reply env) \<noteq> NOT_FOUND"
  shows "Store crc env filename c =
     (if fst (status_reply env) = DEADLINE_EXCEEDED then DEADLINE_EXCEEDED else CANCELLED,
      c, [Call_DFSStatus filename])"
proof -
  obtain st fs where e: "Stat env filename (file_status_declared env) = (st, fs)"
    by (cases "Stat env filename (file_status_declared env)")
  from assms have "st = (if fst (status_reply env) = DEADLINE_EXCEEDED
      then DEADLINE_EXCEEDED else CANCELLED)"
    using Stat_status [of env filename "file_status_declared env"] e by auto
  with e show ?thesis
    by (auto simp: Store_def Let_def)
qed

lemma crcs_differ_OK:
  "status_reply env = (OK, response) \<Longrightarrow>
     crcs_differ crc env filename c =
       (crc (map_option content (local_files c (WrapPath (c_mount_path c) filename)))
        \<noteq> static_cast_uint32 (sp_crc response))"
  by (simp add: crcs_differ_def Stat_OK)

lemma crcs_differ_NOT_FOUND:
  "fst (status_reply env) = NOT_FOUND \<Longrightarrow>
     crcs_differ crc env filename c =
       (crc (map_option content (local_files c (WrapPath (c_mount_path c) filename)))
        \<noteq> static_cast_uint32 (fs_server_crc (file_status_declared env)))"
  by (simp add: crcs_differ_def Stat_not_OK)

text \<open>
  The table of \<open>Store\<close> wherever the comparison of the checksums is against a status
  that \<open>Stat\<close> wrote, or goes the way of the difference. \<open>Store\<close> first calls \<open>Stat\<close>.
  \<^item> OK and equal checksums: the result is ALREADY_EXISTS after one call of \<^verbatim>\<open>utime\<close>
    with the server's modification time, with no further call.
  \<^item> OK or NOT_FOUND, and the comparison finds a difference: \<open>Store\<close> requests the write
    lock. When the lock is granted and the local file opens, it streams the local bytes
    (the chunks sent, put together, are the content of the file) and returns OK,
    DEADLINE_EXCEEDED or CANCELLED after the finish of the stream. When the lock is granted
    and the local file does not open, it returns NOT_FOUND. When the lock is not granted,
    it returns the result of the request (DEADLINE_EXCEEDED, RESOURCE_EXHAUSTED or
    CANCELLED) and sends nothing.
  \<^item> DEADLINE_EXCEEDED: the result is DEADLINE_EXCEEDED, with no further call.
  \<^item> Any other result of \<open>Stat\<close>: the result is CANCELLED, with no further call.
\<close>

lemma Store_table:
  "(status_reply env = (OK, response) \<and> \<not> crcs_differ crc env filename c \<longrightarrow>
      Store crc env filename c =
        (ALREADY_EXISTS,
         c\<lparr>local_files :=
             utime (WrapPath (c_mount_path c) filename)
               ((utimbuf_declared env)\<lparr>modtime := sp_mtime response\<rparr>) (local_files c)\<rparr>,
         [Call_DFSStatus filename]))
   \<and> ((fst (status_reply env) = OK \<or> fst (status_reply env) = NOT_FOUND)
        \<and> crcs_differ crc env filename c \<longrightarrow>
        (lock_reply env = OK
         \<and> local_files c (WrapPath (c_mount_path c) filename) = Some f \<longrightarrow>
           Store crc env filename c =
             (if store_reply env = OK then OK
              else if store_reply env = DEADLINE_EXCEEDED then DEADLINE_EXCEEDED
              else CANCELLED,
              c,
              [Call_DFSStatus filename, Call_DFSRequestLock filename (client_id c),
               Call_DFSStoreFile (send_loop filename (ifstream_open (content f)) [])])
           \<and> concat (map sr_filechunk (send_loop filename (ifstream_open (content f)) []))
               = content f)
        \<and> (lock_reply env = OK
            \<and> local_files c (WrapPath (c_mount_path c) filename) = None \<longrightarrow>
           Store crc env filename c =
             (NOT_FOUND, c,
              [Call_DFSStatus filename, Call_DFSRequestLock filename (client_id c)]))
        \<and> (lock_reply env \<noteq> OK \<longrightarrow>
           Store crc env filename c =
             (RequestWriteAccess env filename, c,
              [Call_DFSStatus filename, Call_DFSRequestLock filename (client_id c)])
           \<and> (RequestWriteAccess env filename = DEADLINE_EXCEEDED
              \<or> RequestWriteAccess env filename = RESOURCE_EXHAUSTED
              \<or> RequestWriteAccess env filename = CANCELLED)))
   \<and> (fst (status_reply env) = DEADLINE_EXCEEDED \<longrightarrow>
        Store crc env filename c = (DEADLINE_EXCEEDED, c, [Call_DFSStatus filename]))
   \<and> (fst (status_reply env) \<noteq> OK \<and> fst (status_reply env) \<noteq> NOT_FOUND
        \<and> fst (status_reply env) \<noteq> DEADLINE_EXCEEDED \<longrightarrow>
        Store crc env filename c = (CANCELLED, c, [Call_DFSStatus filename]))"
proof (intro conjI impI)
  assume a: "status_reply env = (OK, response) \<and> \<not> crcs_differ crc env filename c"
  then have "crc (map_option content (local_files c (WrapPath (c_mount_path c) filename)))
         = static_cast_uint32 (sp_crc response)"
    using crcs_differ_OK [of env response crc filename c] by simp
  with a show "Store crc env filename c =
        (ALREADY_EXISTS,
         c\<lparr>local_files :=
             utime (WrapPath (c_mount_path c) filename)
               ((utimbuf_declared env)\<lparr>modtime := sp_mtime response\<rparr>) (local_files c)\<rparr>,
         [Call_DFSStatus filename])"
    by (simp add: Store_equal)
next
  assume "(fst (status_reply env) = OK \<or> fst (status_reply env) = NOT_FOUND)
        \<and> crcs_differ crc env filename c"
    and "lock_reply env = OK
         \<and> local_files c (WrapPath (c_mount_path c) filename) = Some f"
  then show "Store crc env filename c =
             (if store_reply env = OK then OK
              else if store_reply env = DEADLINE_EXCEEDED then DEADLINE_EXCEEDED
              else CANCELLED,
              c,
              [Call_DFSStatus filename, Call_DFSRequestLock filename (client_id c),
               Call_DFSStoreFile (send_loop filename (ifstream_open (content f)) [])])"
    by (intro Store_streams) simp_all
next
  show "concat (map sr_filechunk (send_loop filename (ifstream_open (content f)) []))
               = content f"
    by (simp add: send_loop_concat ifstream_open_def)
next
  assume "(fst (status_reply env) = OK \<or> fst (status_reply env) = NOT_FOUND)
        \<and> crcs_differ crc env filename c"
    and "lock_reply env = OK
            \<and> local_files c (WrapPath (c_mount_path c) filename) = None"
  then show "Store crc env filename c =
             (NOT_FOUND, c,
              [Call_DFSStatus filename, Call_DFSRequestLock filename (client_id c)])"
    by (intro Store_no_local_file) simp_all
next
  assume "(fst (status_reply env) = OK \<or> fst (status_reply env) = NOT_FOUND)
        \<and> crcs_differ crc env filename c"
    and "lock_reply env \<noteq> OK"
  then show "Store crc env filename c =
             (RequestWriteAccess env filename, c,
              [Call_DFSStatus filename, Call_DFSRequestLock filename (client_id c)])"
    by (intro Store_lock_refused) simp_all
next
  assume "lock_reply env \<noteq> OK"
  then show "RequestWriteAccess env filename = DEADLINE_EXCEEDED
              \<or> RequestWriteAccess env filename = RESOURCE_EXHAUSTED
              \<or> RequestWriteAccess env filename = CANCELLED"
    by (simp add: RequestWriteAccess_not_OK)
next
  assume "fst (status_reply env) = DEADLINE_EXCEEDED"
  then show "Store crc env filename c = (DEADLINE_EXCEEDED, c, [Call_DFSStatus filename])"
    by (simp add: Store_status_failed)
next
  assume "fst (status_reply env) \<noteq> OK \<and> fst (status_reply env) \<noteq> NOT_FOUND
        \<and> fst (status_reply env) \<noteq> DEADLINE_EXCEEDED"
  then show "Store crc env filename c = (CANCELLED, c, [Call_DFSStatus filename])"
    by (simp add: Store_status_failed)
qed

lemma Store_table_examples:
  "Store checksum_of example_env ''a'' example_client =
     (ALREADY_EXISTS,
      example_client\<lparr>local_files := [''/cli/a'' \<mapsto> \<lparr>content = [0x61], mtime = 1000, atime = 0\<rparr>]\<rparr>,
      [Call_DFSStatus ''a''])
   \<and> Store checksum_of
        (example_env\<lparr>status_reply := (OK, example_response\<lparr>sp_crc := 5\<rparr>),
                      store_reply := DEADLINE_EXCEEDED\<rparr>) ''a'' example_client =
     (DEADLINE_EXCEEDED, example_client,
      [Call_DFSStatus ''a'', Call_DFSRequestLock ''a'' ''A'',
       Call_DFSStoreFile [\<lparr>sr_filename = ''a'', sr_filechunk = [0x61]\<rparr>]])
   \<and> Store checksum_of
        (example_env\<lparr>status_reply := (NOT_FOUND, example_response)\<rparr>) ''a'' example_client =
     (OK, example_client,
      [Call_DFSStatus ''a'', Call_DFSRequestLock ''a'' ''A'',
       Call_DFSStoreFile [\<lparr>sr_filename = ''a'', sr_filechunk = [0x61]\<rparr>]])
   \<and> Store checksum_of
        (example_env\<lparr>status_reply := (OK, example_response\<lparr>sp_crc := 5\<rparr>)\<rparr>) ''zz''
        example_client =
     (NOT_FOUND, example_client, [Call_DFSStatus ''zz'', Call_DFSRequestLock ''zz'' ''A''])
   \<and> Store checksum_of
        (example_env\<lparr>status_reply := (OK, example_response\<lparr>sp_crc := 5\<rparr>),
                      lock_reply := UNAVAILABLE\<rparr>) ''a'' example_client =
     (CANCELLED, example_client, [Call_DFSStatus ''a'', Call_DFSRequestLock ''a'' ''A''])
   \<and> Store checksum_of
        (example_env\<lparr>status_reply := (DEADLINE_EXCEEDED, example_response)\<rparr>) ''a''
        example_client =
     (DEADLINE_EXCEEDED, example_client, [Call_DFSStatus ''a''])
   \<and> Store checksum_of
        (example_env\<lparr>status_reply := (UNAVAILABLE, example_response)\<rparr>) ''a''
        example_client =
     (CANCELLED, example_client, [Call_DFSStatus ''a''])"
proof -
  let ?five = "(OK, example_response\<lparr>sp_crc := 5\<rparr>)"
  have path: "WrapPath (c_mount_path example_client) n = ''/cli/'' @ n" for n
    by (simp add: example_client_def WrapPath_def)
  have a: "local_files example_client (''/cli/'' @ ''a'') = Some \<lparr>content = [0x61], mtime = 500, atime = 400\<rparr>"
    and zz: "local_files example_client (''/cli/'' @ ''zz'') = None"
    and cid: "client_id example_client = ''A''"
    by (simp_all add: example_client_def)
  have equal: "\<not> crcs_differ checksum_of example_env ''a'' example_client"
    by (simp add: crcs_differ_def Stat_def example_env_def example_client_def WrapPath_def
        checksum_of_def crc32_a example_response_def static_cast_uint32_def)
  have differ5: "crcs_differ checksum_of
      (example_env\<lparr>status_reply := ?five, lock_reply := l, store_reply := r\<rparr>) n
      example_client" if "n = ''a'' \<or> n = ''zz''" for l r n
    using that
    by (auto simp: crcs_differ_def Stat_def example_client_def WrapPath_def
        checksum_of_def crc32_a static_cast_uint32_def)
  have differ0: "crcs_differ checksum_of
      (example_env\<lparr>status_reply := (NOT_FOUND, example_response)\<rparr>) ''a'' example_client"
    by (simp add: crcs_differ_def Stat_def example_env_def example_client_def WrapPath_def
        checksum_of_def crc32_a zero_file_status_def static_cast_uint32_def)
  have sent: "send_loop ''a'' (ifstream_open [0x61]) []
      = [\<lparr>sr_filename = ''a'', sr_filechunk = [0x61]\<rparr>]"
    by (simp add: send_loop_short ifstream_open_def buffer_size_def)
  have aligned: "utime ''/cli/a''
        ((utimbuf_declared example_env)\<lparr>modtime := sp_mtime example_response\<rparr>)
        (local_files example_client)
      = [''/cli/a'' \<mapsto> \<lparr>content = [0x61], mtime = 1000, atime = 0\<rparr>]"
    by (simp add: utime_def example_client_def example_response_def example_env_def
        zero_utimbuf_def)
  note t = Store_table [where crc = checksum_of and c = example_client]
  have 1: "Store checksum_of example_env ''a'' example_client =
     (ALREADY_EXISTS,
      example_client\<lparr>local_files := [''/cli/a'' \<mapsto> \<lparr>content = [0x61], mtime = 1000, atime = 0\<rparr>]\<rparr>,
      [Call_DFSStatus ''a''])"
    using t [where env = example_env and filename = "''a''" and response = example_response]
      equal
    by (simp add: path aligned) (simp add: example_env_def)
  have 2: "Store checksum_of
        (example_env\<lparr>status_reply := ?five, store_reply := DEADLINE_EXCEEDED\<rparr>) ''a''
        example_client =
     (DEADLINE_EXCEEDED, example_client,
      [Call_DFSStatus ''a'', Call_DFSRequestLock ''a'' ''A'',
       Call_DFSStoreFile [\<lparr>sr_filename = ''a'', sr_filechunk = [0x61]\<rparr>]])"
    using t [where env = "example_env\<lparr>status_reply := ?five, store_reply := DEADLINE_EXCEEDED\<rparr>"
          and filename = "''a''" and f = "\<lparr>content = [0x61], mtime = 500, atime = 400\<rparr>"]
      differ5 [where n = "''a''" and l = "lock_reply example_env" and r = DEADLINE_EXCEEDED] a
    by (simp add: path sent cid) (simp add: example_env_def)
  have 3: "Store checksum_of
        (example_env\<lparr>status_reply := (NOT_FOUND, example_response)\<rparr>) ''a'' example_client =
     (OK, example_client,
      [Call_DFSStatus ''a'', Call_DFSRequestLock ''a'' ''A'',
       Call_DFSStoreFile [\<lparr>sr_filename = ''a'', sr_filechunk = [0x61]\<rparr>]])"
    using t [where env = "example_env\<lparr>status_reply := (NOT_FOUND, example_response)\<rparr>"
          and filename = "''a''" and f = "\<lparr>content = [0x61], mtime = 500, atime = 400\<rparr>"]
      differ0 a
    by (simp add: path sent cid) (simp add: example_env_def)
  have 4: "Store checksum_of (example_env\<lparr>status_reply := ?five\<rparr>) ''zz'' example_client =
     (NOT_FOUND, example_client, [Call_DFSStatus ''zz'', Call_DFSRequestLock ''zz'' ''A''])"
    using t [where env = "example_env\<lparr>status_reply := ?five\<rparr>" and filename = "''zz''"]
      differ5 [where n = "''zz''" and l = "lock_reply example_env"
          and r = "store_reply example_env"] zz
    by (simp add: path cid) (simp add: example_env_def)
  have 5: "Store checksum_of
        (example_env\<lparr>status_reply := ?five, lock_reply := UNAVAILABLE\<rparr>) ''a'' example_client =
     (CANCELLED, example_client, [Call_DFSStatus ''a'', Call_DFSRequestLock ''a'' ''A''])"
    using t [where env = "example_env\<lparr>status_reply := ?five, lock_reply := UNAVAILABLE\<rparr>"
          and filename = "''a''"]
      differ5 [where n = "''a''" and l = UNAVAILABLE and r = "store_reply example_env"]
    by (simp add: cid RequestWriteAccess_def)
  have 6: "Store checksum_of
        (example_env\<lparr>status_reply := (DEADLINE_EXCEEDED, example_response)\<rparr>) ''a''
        example_client =
     (DEADLINE_EXCEEDED, example_client, [Call_DFSStatus ''a''])"
    using t [where env = "example_env\<lparr>status_reply := (DEADLINE_EXCEEDED, example_response)\<rparr>"
          and filename = "''a''"]
    by simp
  have 7: "Store checksum_of
        (example_env\<lparr>status_reply := (UNAVAILABLE, example_response)\<rparr>) ''a''
        example_client =
     (CANCELLED, example_client, [Call_DFSStatus ''a''])"
    using t [where env = "example_env\<lparr>status_reply := (UNAVAILABLE, example_response)\<rparr>"
          and filename = "''a''"]
    by simp
  from 1 2 3 4 5 6 7 show ?thesis
    by (intro conjI)
qed

text \<open>
  After NOT_FOUND the status that \<open>Store\<close> compares against has not been written by
  \<open>Stat\<close>: it is the status as declared. When its checksum field holds the checksum of
  the local file, \<open>Store\<close> takes the branch of the equal checksums.
\<close>

lemma Store_not_found_equal:
  assumes "fst (status_reply env) = NOT_FOUND"
    and "crc (map_option content (local_files c (WrapPath (c_mount_path c) filename)))
         = static_cast_uint32 (fs_server_crc (file_status_declared env))"
  shows "Store crc env filename c =
     (ALREADY_EXISTS,
      c\<lparr>local_files :=
          utime (WrapPath (c_mount_path c) filename)
            ((utimbuf_declared env)\<lparr>modtime := fs_mtime (file_status_declared env)\<rparr>)
            (local_files c)\<rparr>,
      [Call_DFSStatus filename])"
proof -
  obtain st fs where e: "Stat env filename (file_status_declared env) = (st, fs)"
    by (cases "Stat env filename (file_status_declared env)")
  from assms(1) have "st = NOT_FOUND"
    using Stat_status [of env filename "file_status_declared env"] e by auto
  moreover from assms(1) have "fs = file_status_declared env"
    using Stat_not_OK [of env filename "file_status_declared env"] e by auto
  ultimately show ?thesis
    using assms e by (simp add: Store_def Let_def)
qed

text \<open>
  C2: \<open>Store\<close> follows the table of the results of \<open>Stat\<close>, and in its row for
  NOT_FOUND it acquires the write lock and streams the local bytes, so that the server
  creates the file. The code enters that row (it tests for OK or NOT_FOUND) and then
  compares the local checksum with \<^verbatim>\<open>file_status.server_crc\<close>, which \<open>Stat\<close> writes
  only when its call is answered OK. Here the server has no file \<open>n\<close>, the client has an
  empty file \<open>n\<close>, whose checksum is 0, and the field holds 0: \<open>Store\<close> returns
  ALREADY_EXISTS, its only call is the status call, so it requests no lock and sends no
  byte, and it sets the times of the local file from the unwritten status.
\<close>

theorem C2_store_not_found_unwritten_status:
  "fst (status_reply (example_env\<lparr>status_reply := (NOT_FOUND, example_response)\<rparr>)) = NOT_FOUND
   \<and> checksum_of (Some []) = 0
   \<and> Store checksum_of (example_env\<lparr>status_reply := (NOT_FOUND, example_response)\<rparr>) ''n''
        (example_client\<lparr>local_files :=
           [''/cli/n'' \<mapsto> \<lparr>content = [], mtime = 500, atime = 400\<rparr>]\<rparr>)
      = (ALREADY_EXISTS,
         example_client\<lparr>local_files :=
           [''/cli/n'' \<mapsto> \<lparr>content = [], mtime = 0, atime = 0\<rparr>]\<rparr>,
         [Call_DFSStatus ''n''])"
  by (simp add: Store_def Stat_def example_env_def example_client_def WrapPath_def
      checksum_of_def crc32_Nil zero_file_status_def zero_utimbuf_def static_cast_uint32_def
      utime_def)

subsection \<open>C7: Delete\<close>

lemma std_remove_missing: "fs path = None \<Longrightarrow> std_remove permitted path fs = None"
  by (simp add: std_remove_def)

lemma std_remove_Some:
  "std_remove permitted path fs = Some fs' \<Longrightarrow> fs' = fs(path := None) \<and> fs path \<noteq> None"
  by (auto simp: std_remove_def split: option.splits if_splits)

text \<open>
  C7. The client requests the write lock first and makes the delete call only when the
  lock was granted. The server's handler takes the mutex of the registry, then (unless the
  call is cancelled) removes the file, then erases the entry of the file name, then drops
  the mutex: the removal happens under the mutex, and the lock is released whether the
  removal succeeded, failed or never took place. A failed removal, and so the removal of a
  file that is missing, is answered CANCELLED and leaves the files as they were; a call
  cancelled before the removal is answered DEADLINE_EXCEEDED and removes nothing; a
  removal that succeeds is answered OK. The client hands each of these answers on.
\<close>

theorem C7_delete:
  "snd (Delete env filename c) =
     (if lock_reply env = OK
      then [Call_DFSRequestLock filename (client_id c), Call_DFSDeleteFile filename]
      else [Call_DFSRequestLock filename (client_id c)])
   \<and> write_locks (fst (snd (DFSDeleteFile is_cancelled permitted filename s))) filename = None
   \<and> snd (snd (DFSDeleteFile is_cancelled permitted filename s)) =
       Lock_write_locks_mutex
       # (if is_cancelled then [] else [Remove (WrapPath (mount_path s) filename)])
       @ [Erase filename, Unlock_write_locks_mutex]
   \<and> (is_cancelled \<longrightarrow>
        fst (DFSDeleteFile is_cancelled permitted filename s) = DEADLINE_EXCEEDED
        \<and> files (fst (snd (DFSDeleteFile is_cancelled permitted filename s))) = files s)
   \<and> (\<not> is_cancelled
        \<and> std_remove permitted (WrapPath (mount_path s) filename) (files s) = None \<longrightarrow>
        fst (DFSDeleteFile is_cancelled permitted filename s) = CANCELLED
        \<and> files (fst (snd (DFSDeleteFile is_cancelled permitted filename s))) = files s)
   \<and> (\<not> is_cancelled \<and> files s (WrapPath (mount_path s) filename) = None \<longrightarrow>
        fst (DFSDeleteFile is_cancelled permitted filename s) = CANCELLED)
   \<and> (\<not> is_cancelled
        \<and> std_remove permitted (WrapPath (mount_path s) filename) (files s) = Some fs' \<longrightarrow>
        fst (DFSDeleteFile is_cancelled permitted filename s) = OK
        \<and> files (fst (snd (DFSDeleteFile is_cancelled permitted filename s)))
            = (files s)(WrapPath (mount_path s) filename := None))
   \<and> (lock_reply env = OK
        \<and> delete_reply env = fst (DFSDeleteFile is_cancelled permitted filename s) \<longrightarrow>
        fst (Delete env filename c) = fst (DFSDeleteFile is_cancelled permitted filename s))"
proof (intro conjI impI)
  show "snd (Delete env filename c) =
     (if lock_reply env = OK
      then [Call_DFSRequestLock filename (client_id c), Call_DFSDeleteFile filename]
      else [Call_DFSRequestLock filename (client_id c)])"
    by (simp add: Delete_def RequestWriteAccess_def Let_def)
  show "write_locks (fst (snd (DFSDeleteFile is_cancelled permitted filename s))) filename = None"
    by (simp add: DFSDeleteFile_def release_def erase_def split: option.split)
  show "snd (snd (DFSDeleteFile is_cancelled permitted filename s)) =
       Lock_write_locks_mutex
       # (if is_cancelled then [] else [Remove (WrapPath (mount_path s) filename)])
       @ [Erase filename, Unlock_write_locks_mutex]"
    by (simp add: DFSDeleteFile_def split: option.split)
next
  assume is_cancelled
  then show "fst (DFSDeleteFile is_cancelled permitted filename s) = DEADLINE_EXCEEDED"
    and "files (fst (snd (DFSDeleteFile is_cancelled permitted filename s))) = files s"
    by (simp_all add: DFSDeleteFile_def release_def)
next
  assume "\<not> is_cancelled
        \<and> std_remove permitted (WrapPath (mount_path s) filename) (files s) = None"
  then show "fst (DFSDeleteFile is_cancelled permitted filename s) = CANCELLED"
    and "files (fst (snd (DFSDeleteFile is_cancelled permitted filename s))) = files s"
    by (simp_all add: DFSDeleteFile_def release_def)
next
  assume "\<not> is_cancelled \<and> files s (WrapPath (mount_path s) filename) = None"
  then show "fst (DFSDeleteFile is_cancelled permitted filename s) = CANCELLED"
    by (simp add: DFSDeleteFile_def std_remove_missing)
next
  assume a: "\<not> is_cancelled
        \<and> std_remove permitted (WrapPath (mount_path s) filename) (files s) = Some fs'"
  then show "fst (DFSDeleteFile is_cancelled permitted filename s) = OK"
    by (simp add: DFSDeleteFile_def)
  from a have "fs' = (files s)(WrapPath (mount_path s) filename := None)"
    using std_remove_Some by blast
  with a show "files (fst (snd (DFSDeleteFile is_cancelled permitted filename s)))
            = (files s)(WrapPath (mount_path s) filename := None)"
    by (simp add: DFSDeleteFile_def release_def)
next
  assume a: "lock_reply env = OK
        \<and> delete_reply env = fst (DFSDeleteFile is_cancelled permitted filename s)"
  have "fst (DFSDeleteFile is_cancelled permitted filename s) = OK
      \<or> fst (DFSDeleteFile is_cancelled permitted filename s) = DEADLINE_EXCEEDED
      \<or> fst (DFSDeleteFile is_cancelled permitted filename s) = CANCELLED"
    by (simp add: DFSDeleteFile_def split: option.split)
  with a show "fst (Delete env filename c) = fst (DFSDeleteFile is_cancelled permitted filename s)"
    by (auto simp: Delete_def RequestWriteAccess_def Let_def)
qed

theorem C7_delete_witness:
  "snd (Delete example_env ''a'' example_client) =
     [Call_DFSRequestLock ''a'' ''A'', Call_DFSDeleteFile ''a'']
   \<and> snd (Delete (example_env\<lparr>lock_reply := RESOURCE_EXHAUSTED\<rparr>) ''a'' example_client) =
     [Call_DFSRequestLock ''a'' ''A'']
   \<and> DFSDeleteFile False True ''a'' (example_server\<lparr>write_locks := [''a'' \<mapsto> ''A'']\<rparr>) =
     (OK, example_server\<lparr>write_locks := Map.empty, files := Map.empty\<rparr>,
      [Lock_write_locks_mutex, Remove ''/srv/a'', Erase ''a'', Unlock_write_locks_mutex])
   \<and> DFSDeleteFile False True ''zz'' (example_server\<lparr>write_locks := [''zz'' \<mapsto> ''A'']\<rparr>) =
     (CANCELLED, example_server,
      [Lock_write_locks_mutex, Remove ''/srv/zz'', Erase ''zz'', Unlock_write_locks_mutex])
   \<and> DFSDeleteFile True True ''a'' (example_server\<lparr>write_locks := [''a'' \<mapsto> ''A'']\<rparr>) =
     (DEADLINE_EXCEEDED, example_server,
      [Lock_write_locks_mutex, Erase ''a'', Unlock_write_locks_mutex])
   \<and> fst (Delete (example_env\<lparr>delete_reply := CANCELLED\<rparr>) ''zz'' example_client) = CANCELLED"
proof -
  let ?a = "example_server\<lparr>write_locks := [''a'' \<mapsto> ''A'']\<rparr>"
  let ?z = "example_server\<lparr>write_locks := [''zz'' \<mapsto> ''A'']\<rparr>"
  have gone: "std_remove True (WrapPath (mount_path ?a) ''a'') (files ?a) = Some Map.empty"
    by (simp add: std_remove_def example_server_def WrapPath_def)
  have missing: "files ?z (WrapPath (mount_path ?z) ''zz'') = None"
    by (simp add: example_server_def WrapPath_def)
  have 1: "snd (Delete example_env ''a'' example_client) =
     [Call_DFSRequestLock ''a'' ''A'', Call_DFSDeleteFile ''a'']"
    using C7_delete [where env = example_env and filename = "''a''" and c = example_client]
    by (simp add: example_env_def example_client_def)
  have 2: "snd (Delete (example_env\<lparr>lock_reply := RESOURCE_EXHAUSTED\<rparr>) ''a'' example_client) =
     [Call_DFSRequestLock ''a'' ''A'']"
    using C7_delete [where env = "example_env\<lparr>lock_reply := RESOURCE_EXHAUSTED\<rparr>"
        and filename = "''a''" and c = example_client]
    by (simp add: example_client_def)
  have 3: "DFSDeleteFile False True ''a'' ?a =
     (OK, example_server\<lparr>write_locks := Map.empty, files := Map.empty\<rparr>,
      [Lock_write_locks_mutex, Remove ''/srv/a'', Erase ''a'', Unlock_write_locks_mutex])"
    using C7_delete [where is_cancelled = False and permitted = True and filename = "''a''"
        and s = ?a and fs' = Map.empty] gone
    by (simp add: DFSDeleteFile_def release_def erase_def example_server_def WrapPath_def)
  have 4: "DFSDeleteFile False True ''zz'' ?z =
     (CANCELLED, example_server,
      [Lock_write_locks_mutex, Remove ''/srv/zz'', Erase ''zz'', Unlock_write_locks_mutex])"
    using C7_delete [where is_cancelled = False and permitted = True and filename = "''zz''"
        and s = ?z] missing
    by (simp add: DFSDeleteFile_def std_remove_def release_def erase_def example_server_def
        WrapPath_def)
  have 5: "DFSDeleteFile True True ''a'' ?a =
     (DEADLINE_EXCEEDED, example_server,
      [Lock_write_locks_mutex, Erase ''a'', Unlock_write_locks_mutex])"
    using C7_delete [where is_cancelled = True and permitted = True and filename = "''a''"
        and s = ?a]
    by (simp add: DFSDeleteFile_def release_def erase_def example_server_def)
  have 6: "fst (Delete (example_env\<lparr>delete_reply := CANCELLED\<rparr>) ''zz'' example_client)
      = CANCELLED"
    using C7_delete [where env = "example_env\<lparr>delete_reply := CANCELLED\<rparr>"
        and filename = "''zz''" and c = example_client and is_cancelled = False
        and permitted = True and s = ?z] missing
    by (simp add: example_env_def)
  from 1 2 3 4 5 6 show ?thesis
    by (intro conjI)
qed

subsection \<open>C10: the listing and the mount directory\<close>

lemma list_loop_status:
  "fst (list_loop mp st entries response) =
     (if \<exists>e \<in> set entries. d_type e = DT_REG \<and> st (WrapPath mp (d_name e)) = None
      then CANCELLED else OK)"
  by (induction entries arbitrary: response) (auto split: option.splits)

text \<open>
  C10. Neither listing checks what \<^verbatim>\<open>opendir\<close> returned. Past the cancellation check of
  \<open>DFSList\<close>, and from the start of \<open>ProcessCallback\<close>, the behaviour is defined exactly
  when the mount directory opens: when it does not, \<^verbatim>\<open>readdir\<close> is called on a null
  pointer and no status is returned at all; when it does, both return, and the only status
  of \<open>DFSList\<close> besides OK is CANCELLED, which tells of a regular entry whose \<^verbatim>\<open>stat\<close>
  failed and not of the directory.
\<close>

theorem C10_listing_needs_directory:
  "(DFSList False mp os = Undefined_behaviour) = (opendir os = None)
   \<and> (ProcessCallback mp os = Undefined_behaviour) = (opendir os = None)
   \<and> (opendir os = None \<longrightarrow>
        (\<forall>r. DFSList False mp os \<noteq> Returns r) \<and> (\<forall>r. ProcessCallback mp os \<noteq> Returns r))
   \<and> (opendir os = Some entries \<longrightarrow>
        DFSList False mp os = Returns (list_loop mp (stat_mtime os) entries [])
        \<and> fst (list_loop mp (stat_mtime os) entries []) =
            (if \<exists>e \<in> set entries.
                  d_type e = DT_REG \<and> stat_mtime os (WrapPath mp (d_name e)) = None
             then CANCELLED else OK)
        \<and> ProcessCallback mp os = Returns (callback_loop mp (stat_mtime os) entries []))"
  by (simp add: DFSList_def ProcessCallback_def list_loop_status split: option.split)

theorem C10_listing_needs_directory_witness:
  "DFSList False ''/srv/'' \<lparr>opendir = None, stat_mtime = Map.empty\<rparr> = Undefined_behaviour
   \<and> ProcessCallback ''/srv/'' \<lparr>opendir = None, stat_mtime = Map.empty\<rparr> = Undefined_behaviour
   \<and> DFSList False ''/srv/''
        \<lparr>opendir = Some [\<lparr>d_name = ''.'', d_type = DT_DIR\<rparr>, \<lparr>d_name = ''a'', d_type = DT_REG\<rparr>],
         stat_mtime = [''/srv/a'' \<mapsto> 1000]\<rparr>
       = Returns (OK, [\<lparr>fi_filename = ''a'', fi_mtime = 1000\<rparr>])
   \<and> ProcessCallback ''/srv/''
        \<lparr>opendir = Some [\<lparr>d_name = ''.'', d_type = DT_DIR\<rparr>, \<lparr>d_name = ''a'', d_type = DT_REG\<rparr>],
         stat_mtime = [''/srv/a'' \<mapsto> 1000]\<rparr>
       = Returns [\<lparr>fi_filename = ''a'', fi_mtime = 1000\<rparr>]"
  using C10_listing_needs_directory
      [where mp = "''/srv/''" and os = "\<lparr>opendir = None, stat_mtime = Map.empty\<rparr>"]
    C10_listing_needs_directory
      [where mp = "''/srv/''"
        and os = "\<lparr>opendir = Some [\<lparr>d_name = ''.'', d_type = DT_DIR\<rparr>,
                                   \<lparr>d_name = ''a'', d_type = DT_REG\<rparr>],
                   stat_mtime = [''/srv/a'' \<mapsto> 1000]\<rparr>"
        and entries = "[\<lparr>d_name = ''.'', d_type = DT_DIR\<rparr>, \<lparr>d_name = ''a'', d_type = DT_REG\<rparr>]"]
  by (simp add: WrapPath_def)

end
